theory Spec2Isabelle
  imports Complex_Main
begin

section \<open>GLSL values\<close>

text \<open>
  The two fragment shaders of \<^verbatim>\<open>Waves\<close> are embedded as functions on vectors of reals.
  GLSL's \<^verbatim>\<open>mediump float\<close> is idealised to \<^typ>\<open>real\<close>: every theorem below is about the
  arithmetic the shader text denotes, not about the rounding of a particular GPU.
  A \<^verbatim>\<open>sampler2D\<close> is the function from texture coordinates to texels that
  \<^verbatim>\<open>texture2D\<close> evaluates; filtering and wrapping are part of that function.
\<close>

datatype vec2 = Vec2 (vx: real) (vy: real)

datatype vec3 = Vec3 (v3x: real) (v3y: real) (v3z: real)

datatype vec4 = Vec4 (red: real) (green: real) (blue: real) (alpha: real)

type_synonym sampler2D = "vec2 \<Rightarrow> vec4"

definition texture2D :: "sampler2D \<Rightarrow> vec2 \<Rightarrow> vec4" where
  "texture2D s uv = s uv"

definition vec2_add :: "vec2 \<Rightarrow> vec2 \<Rightarrow> vec2" where
  "vec2_add a b = Vec2 (vx a + vx b) (vy a + vy b)"

definition vec2_sub :: "vec2 \<Rightarrow> vec2 \<Rightarrow> vec2" where
  "vec2_sub a b = Vec2 (vx a - vx b) (vy a - vy b)"

definition vec2_div :: "vec2 \<Rightarrow> vec2 \<Rightarrow> vec2" where
  "vec2_div a b = Vec2 (vx a / vx b) (vy a / vy b)"

definition vec2_scale :: "real \<Rightarrow> vec2 \<Rightarrow> vec2" where
  "vec2_scale k a = Vec2 (k * vx a) (k * vy a)"

definition xz :: "vec3 \<Rightarrow> vec2" where
  "xz v = Vec2 (v3x v) (v3z v)"

definition rgb :: "vec4 \<Rightarrow> vec3" where
  "rgb c = Vec3 (red c) (green c) (blue c)"

definition vec4_mul :: "vec4 \<Rightarrow> vec4 \<Rightarrow> vec4" where
  "vec4_mul a b = Vec4 (red a * red b) (green a * green b) (blue a * blue b) (alpha a * alpha b)"

definition vec4_all :: "real \<Rightarrow> vec4" where
  "vec4_all k = Vec4 k k k k"

definition mix :: "real \<Rightarrow> real \<Rightarrow> real \<Rightarrow> real" where
  "mix x y a = x * (1 - a) + y * a"

definition mix4 :: "vec4 \<Rightarrow> vec4 \<Rightarrow> real \<Rightarrow> vec4" where
  "mix4 p q a = Vec4 (mix (red p) (red q) a) (mix (green p) (green q) a)
                     (mix (blue p) (blue q) a) (mix (alpha p) (alpha q) a)"

definition dot :: "vec3 \<Rightarrow> vec3 \<Rightarrow> real" where
  "dot a b = v3x a * v3x b + v3y a * v3y b + v3z a * v3z b"

definition cross :: "vec3 \<Rightarrow> vec3 \<Rightarrow> vec3" where
  "cross a b = Vec3 (v3y a * v3z b - v3z a * v3y b)
                    (v3z a * v3x b - v3x a * v3z b)
                    (v3x a * v3y b - v3y a * v3x b)"

definition normalize :: "vec3 \<Rightarrow> vec3" where
  "normalize v = (let l = sqrt (dot v v) in Vec3 (v3x v / l) (v3y v / l) (v3z v / l))"

section \<open>The propagation shader\<close>

text \<open>\<^verbatim>\<open>Waves.prototype.DAMPING = .995\<close>, the value \<^verbatim>\<open>propagate\<close> passes as the
  \<^verbatim>\<open>damping\<close> uniform.\<close>

definition DAMPING :: real where
  "DAMPING = 995 / 1000"

text \<open>\<^verbatim>\<open>SHADER_PROPAGATE_FRAGMENT\<close>: \<^verbatim>\<open>main\<close> as a function of the uniforms
  \<^verbatim>\<open>source\<close>, \<^verbatim>\<open>size\<close>, \<^verbatim>\<open>damping\<close> and of \<^verbatim>\<open>gl_FragCoord.xy\<close>; the result is
  \<^verbatim>\<open>gl_FragColor\<close>.\<close>

definition propagate_fragment :: "sampler2D \<Rightarrow> vec2 \<Rightarrow> real \<Rightarrow> vec2 \<Rightarrow> vec4" where
  "propagate_fragment source size' damping fragCoord =
     (let uv = vec2_div fragCoord size';
          step = Vec2 (1 / vx size') (1 / vy size');
          state = rgb (texture2D source uv);
          hLeft = red (texture2D source (Vec2 (vx uv - vx step) (vy uv)));
          hRight = red (texture2D source (Vec2 (vx uv + vx step) (vy uv)));
          hUp = red (texture2D source (Vec2 (vx uv) (vy uv - vy step)));
          hDown = red (texture2D source (Vec2 (vx uv) (vy uv + vy step)));
          momentum = (v3y state + v3z state) * 2 - 1;
          newHeight = (hLeft + hUp + hRight + hDown) - 2
      in Vec4 (((newHeight - momentum) * damping) * (1 / 2) + 1 / 2) (v3x state) 0 0)"

section \<open>The distortion shader\<close>

text \<open>\<^verbatim>\<open>SHADER_DISTORT_FRAGMENT\<close>, function \<^verbatim>\<open>get\<close>: the height read by the shading stage at
  an offset of \<^verbatim>\<open>delta\<close> water cells, from the two height-field samplers blended by \<^verbatim>\<open>time\<close>.\<close>

definition get :: "sampler2D \<Rightarrow> sampler2D \<Rightarrow> vec2 \<Rightarrow> vec2 \<Rightarrow> real \<Rightarrow> vec2 \<Rightarrow> vec2 \<Rightarrow> real" where
  "get waterBack waterFront size' waterSize time fragCoord delta =
     (let uv = vec2_add (vec2_div fragCoord size') (vec2_div delta waterSize)
      in mix (red (texture2D waterBack uv)) (red (texture2D waterFront uv)) time * 6 - 3)"

text \<open>The local variables of \<^verbatim>\<open>main\<close> that the specification speaks about, and the result
  \<^verbatim>\<open>gl_FragColor\<close>. \<open>shiny_dot\<close> is \<^verbatim>\<open>shiny\<close> as initialised (line 58), \<open>shiny\<close> its value
  after the two conditionals; \<open>sampled\<close> is \<^verbatim>\<open>pixel\<close> as initialised (line 70), \<open>pixel\<close> its
  value after the transparency test.\<close>

record distort_locals =
  normal :: vec3
  displacement :: vec2
  shiny_dot :: real
  shiny :: real
  sampled :: vec4
  pixel :: vec4
  gl_FragColor :: vec4

text \<open>\<^verbatim>\<open>SHADER_DISTORT_FRAGMENT\<close>, function \<^verbatim>\<open>main\<close>, statement by statement.\<close>

definition distort_main ::
  "sampler2D \<Rightarrow> sampler2D \<Rightarrow> sampler2D \<Rightarrow> real \<Rightarrow> vec2 \<Rightarrow> vec2 \<Rightarrow> real \<Rightarrow> vec2 \<Rightarrow> distort_locals" where
  "distort_main background waterBack waterFront depth size' waterSize time fragCoord =
     (let height = get waterBack waterFront size' waterSize time fragCoord;
          dyx = height (Vec2 1 0) - height (Vec2 (- 1) 0);
          dyz = height (Vec2 0 1) - height (Vec2 0 (- 1));
          normal0 = cross (normalize (Vec3 2 dyx 0)) (normalize (Vec3 0 dyz 2));
          displacement0 = vec2_div (vec2_scale depth (xz normal0)) size';
          shiny0 = dot (normalize (Vec3 1 0 1)) normal0;
          shiny1 = (if shiny0 < 0 then shiny0 * (5 / 10)
                    else if shiny0 > 5 / 10 then shiny0 * (15 / 10)
                    else shiny0);
          filter' = vec4_mul (Vec4 (93 / 100) (98 / 100) 1 1) (Vec4 (92 / 100) (97 / 100) 1 1);
          sky = Vec4 (88 / 100) (96 / 100) 1 1;
          pixel0 = texture2D background (vec2_sub (vec2_div fragCoord size') displacement0);
          pixel1 = (if alpha pixel0 = 0 then vec4_all 1 else pixel0)
      in \<lparr> normal = normal0, displacement = displacement0, shiny_dot = shiny0, shiny = shiny1,
           sampled = pixel0, pixel = pixel1,
           gl_FragColor = mix4 (vec4_mul filter' pixel1) sky shiny1 \<rparr>)"

definition distort_fragment ::
  "sampler2D \<Rightarrow> sampler2D \<Rightarrow> sampler2D \<Rightarrow> real \<Rightarrow> vec2 \<Rightarrow> vec2 \<Rightarrow> real \<Rightarrow> vec2 \<Rightarrow> vec4" where
  "distort_fragment background waterBack waterFront depth size' waterSize time fragCoord =
     gl_FragColor (distort_main background waterBack waterFront depth size' waterSize time fragCoord)"

text \<open>The two constant colours of \<^verbatim>\<open>main\<close>, for stating its result: \<^verbatim>\<open>filter\<close> is the
  product of the two dulling colours, \<^verbatim>\<open>sky\<close> is the colour blended in.\<close>

definition filter_colour :: vec4 where
  "filter_colour = Vec4 (0.93 * 0.92) (0.98 * 0.97) 1 1"

definition sky_colour :: vec4 where
  "sky_colour = Vec4 0.88 0.96 1 1"

text \<open>The height mapping as the specification words it: \<open>encode(h) = h/6 + 0.5\<close> and
  \<open>decode(v) = v*6 - 3\<close>. Neither is a function of the source; they are compared with what
  the two shaders compute.\<close>

definition spec_encode :: "real \<Rightarrow> real" where
  "spec_encode h = h / 6 + 0.5"

definition spec_decode :: "real \<Rightarrow> real" where
  "spec_decode v = v * 6 - 3"

section \<open>The pipeline driver\<close>

text \<open>
  \<^verbatim>\<open>Waves.prototype.propagate\<close> and \<^verbatim>\<open>Waves.prototype.render\<close> are straight-line sequences of
  calls on the WebGL context, the two shader programs, the water plane and the wave
  painter. Each call is a function on a \<open>world\<close>: the part of the WebGL state the calls
  touch, the water plane, what has been rasterised into every texture and framebuffer, and
  the sequence of calls made so far. A method is the list of its statements, run in order.
\<close>

datatype program = ProgramDistort | ProgramPropagate

datatype uniform_name =
  UScale | UBackground | UWaterBack | UWaterFront | UDepth | USize | UWaterSize | UTime | UDamping

datatype uniform_setting = Unset | Set1f real | Set2f real real | Set1i nat

datatype buffer_target = ARRAY_BUFFER | ELEMENT_ARRAY_BUFFER

datatype tex_param = TEXTURE_MIN_FILTER | TEXTURE_MAG_FILTER

datatype tex_filter = NEAREST | LINEAR

text \<open>Modelled from the spec: the class of the two height-field buffers (\<^verbatim>\<open>RenderTarget\<close>) is
  not among the sources. A buffer is a GPU texture that can be bound as the render target:
  a framebuffer handle, bound by \<^verbatim>\<open>target()\<close>, and the handle of the texture it holds, read
  through \<^verbatim>\<open>.texture\<close>.\<close>

record render_target =
  rt_framebuffer :: nat
  rt_texture :: nat

text \<open>Modelled from the spec: \<^verbatim>\<open>WaterPlane\<close> is not among the sources. It owns the pair of
  height-field buffers and the width, height and scale; two buffer slots and a flag that
  selects the current front; \<^verbatim>\<open>getFront\<close> and \<^verbatim>\<open>getBack\<close> are the accessors and \<^verbatim>\<open>flip\<close>
  swaps which buffer is considered front and which back.\<close>

record water_plane =
  buffer_a :: render_target
  buffer_b :: render_target
  front_is_a :: bool
  width :: real
  height :: real
  SCALE :: real

text \<open>Modelled from the spec: \<^verbatim>\<open>WaterPlane.prototype.getFront\<close> is not among the sources; the
  accessor of the buffer currently considered the front.\<close>

definition getFront :: "water_plane \<Rightarrow> render_target" where
  "getFront w = (if front_is_a w then buffer_a w else buffer_b w)"

text \<open>Modelled from the spec: \<^verbatim>\<open>WaterPlane.prototype.getBack\<close> is not among the sources; the
  accessor of the buffer currently considered the back.\<close>

definition getBack :: "water_plane \<Rightarrow> render_target" where
  "getBack w = (if front_is_a w then buffer_b w else buffer_a w)"

text \<open>Modelled from the spec: \<^verbatim>\<open>WaterPlane.prototype.flip\<close> is not among the sources; it swaps
  which buffer is considered front and which back.\<close>

definition flip :: "water_plane \<Rightarrow> water_plane" where
  "flip w = w\<lparr>front_is_a := \<not> front_is_a w\<rparr>"

text \<open>Modelled from the spec: \<^verbatim>\<open>Mesh\<close> is not among the sources; a static vertex and index
  buffer covering the simulated area. The driver uses the handles of the two buffers and the
  index count.\<close>

record mesh =
  vertices :: nat
  indices :: nat
  indexCount :: nat

text \<open>What has been rasterised into a texture or a framebuffer, oldest first: a clear to a
  colour, a draw of a program with the textures its samplers read, or the wave painter's
  influences.\<close>

datatype raster_op = Cleared vec4 | Drawn program "nat option list" nat | Painted nat

datatype call =
  ShaderUse program
| WaterFlip
| RenderTargetTarget nat
| GlClearColor
| GlClear
| GlUniform program uniform_name
| GlBindBuffer buffer_target
| GlEnableVertexAttribArray
| GlVertexAttribPointer
| GlActiveTexture nat
| GlBindTexture nat
| GlTexParameteri tex_param tex_filter
| GlDrawElements
| ApplyInfluences

record world =
  water :: water_plane
  current_program :: "program option"
  framebuffer_binding :: nat
  color_attachment :: "nat \<Rightarrow> nat option"
  clear_colour :: vec4
  buffer_binding :: "buffer_target \<Rightarrow> nat option"
  enabled_attribs :: "program \<Rightarrow> bool"
  attrib_pointer :: "program \<Rightarrow> (nat option \<times> nat \<times> nat \<times> nat) option"
  active_texture :: nat
  texture_binding :: "nat \<Rightarrow> nat option"
  tex_parameter :: "nat \<Rightarrow> tex_param \<Rightarrow> tex_filter"
  uniforms :: "program \<Rightarrow> uniform_name \<Rightarrow> uniform_setting"
  pixels :: "nat \<Rightarrow> raster_op list"
  surface :: "nat \<Rightarrow> raster_op list"
  invalid_operation :: bool
  calls :: "call list"

definition logged :: "call \<Rightarrow> world \<Rightarrow> world" where
  "logged c s = s\<lparr>calls := calls s @ [c]\<rparr>"

text \<open>Modelled from the spec: \<^verbatim>\<open>Shader.prototype.use\<close> is not among the sources; a shader
  program is a compiled GPU program with resolved uniform and attribute locations, and
  \<^verbatim>\<open>use()\<close> makes it the current program.\<close>

definition shader_use :: "program \<Rightarrow> world \<Rightarrow> world" where
  "shader_use p s = logged (ShaderUse p) (s\<lparr>current_program := Some p\<rparr>)"

text \<open>The call \<^verbatim>\<open>water.flip()\<close> on the water plane of the world.\<close>

definition water_flip :: "world \<Rightarrow> world" where
  "water_flip s = logged WaterFlip (s\<lparr>water := flip (water s)\<rparr>)"

text \<open>Modelled from the spec: \<^verbatim>\<open>RenderTarget.prototype.target\<close> is not among the sources; it
  binds the buffer as the render target of the draw calls that follow.\<close>

definition target :: "render_target \<Rightarrow> world \<Rightarrow> world" where
  "target rt s =
     logged (RenderTargetTarget (rt_framebuffer rt)) (s\<lparr>framebuffer_binding := rt_framebuffer rt\<rparr>)"

subsection \<open>The WebGL calls\<close>

definition gl_clearColor :: "real \<Rightarrow> real \<Rightarrow> real \<Rightarrow> real \<Rightarrow> world \<Rightarrow> world" where
  "gl_clearColor r g b a s = logged GlClearColor (s\<lparr>clear_colour := Vec4 r g b a\<rparr>)"

text \<open>A clear or a draw lands in the texture attached to the bound framebuffer, or in the
  framebuffer's own surface when it has no texture attached (the canvas).\<close>

definition rasterise :: "raster_op \<Rightarrow> world \<Rightarrow> world" where
  "rasterise w s =
     (case color_attachment s (framebuffer_binding s) of
        None \<Rightarrow> s\<lparr>surface := (surface s)(framebuffer_binding s :=
                     surface s (framebuffer_binding s) @ [w])\<rparr>
      | Some t \<Rightarrow> s\<lparr>pixels := (pixels s)(t := pixels s t @ [w])\<rparr>)"

definition gl_clear :: "world \<Rightarrow> world" where
  "gl_clear s = logged GlClear (rasterise (Cleared (clear_colour s)) s)"

definition gl_uniform1f :: "program \<Rightarrow> uniform_name \<Rightarrow> real \<Rightarrow> world \<Rightarrow> world" where
  "gl_uniform1f p u x s =
     logged (GlUniform p u) (s\<lparr>uniforms := (uniforms s)(p := (uniforms s p)(u := Set1f x))\<rparr>)"

definition gl_uniform2f :: "program \<Rightarrow> uniform_name \<Rightarrow> real \<Rightarrow> real \<Rightarrow> world \<Rightarrow> world" where
  "gl_uniform2f p u x y s =
     logged (GlUniform p u) (s\<lparr>uniforms := (uniforms s)(p := (uniforms s p)(u := Set2f x y))\<rparr>)"

definition gl_uniform1i :: "program \<Rightarrow> uniform_name \<Rightarrow> nat \<Rightarrow> world \<Rightarrow> world" where
  "gl_uniform1i p u n s =
     logged (GlUniform p u) (s\<lparr>uniforms := (uniforms s)(p := (uniforms s p)(u := Set1i n))\<rparr>)"

definition gl_bindBuffer :: "buffer_target \<Rightarrow> nat \<Rightarrow> world \<Rightarrow> world" where
  "gl_bindBuffer bt b s =
     logged (GlBindBuffer bt) (s\<lparr>buffer_binding := (buffer_binding s)(bt := Some b)\<rparr>)"

text \<open>Each program has the one attribute \<^verbatim>\<open>position\<close>, so its location \<^verbatim>\<open>aPosition\<close> is
  named by the program.\<close>

definition gl_enableVertexAttribArray :: "program \<Rightarrow> world \<Rightarrow> world" where
  "gl_enableVertexAttribArray p s =
     logged GlEnableVertexAttribArray (s\<lparr>enabled_attribs := (enabled_attribs s)(p := True)\<rparr>)"

definition gl_vertexAttribPointer :: "program \<Rightarrow> nat \<Rightarrow> nat \<Rightarrow> nat \<Rightarrow> world \<Rightarrow> world" where
  "gl_vertexAttribPointer p n stride offset s =
     logged GlVertexAttribPointer
       (s\<lparr>attrib_pointer :=
            (attrib_pointer s)(p := Some (buffer_binding s ARRAY_BUFFER, n, stride, offset))\<rparr>)"

definition gl_activeTexture :: "nat \<Rightarrow> world \<Rightarrow> world" where
  "gl_activeTexture unit s = logged (GlActiveTexture unit) (s\<lparr>active_texture := unit\<rparr>)"

definition gl_bindTexture :: "nat \<Rightarrow> world \<Rightarrow> world" where
  "gl_bindTexture t s =
     logged (GlBindTexture t) (s\<lparr>texture_binding := (texture_binding s)(active_texture s := Some t)\<rparr>)"

definition gl_texParameteri :: "tex_param \<Rightarrow> tex_filter \<Rightarrow> world \<Rightarrow> world" where
  "gl_texParameteri pname f s =
     logged (GlTexParameteri pname f)
       (case texture_binding s (active_texture s) of
          None \<Rightarrow> s\<lparr>invalid_operation := True\<rparr>
        | Some t \<Rightarrow> s\<lparr>tex_parameter := (tex_parameter s)(t := (tex_parameter s t)(pname := f))\<rparr>)"

text \<open>The texture units the samplers of a program read. A sampler uniform that was never
  assigned reads unit 0: so does \<^verbatim>\<open>source\<close> of the propagation shader, which is not among
  the uniforms the constructor resolves and which no call assigns.\<close>

definition unit_of :: "uniform_setting \<Rightarrow> nat" where
  "unit_of v = (case v of Set1i n \<Rightarrow> n | _ \<Rightarrow> 0)"

definition sampled_units :: "program \<Rightarrow> world \<Rightarrow> nat list" where
  "sampled_units p s =
     (case p of
        ProgramDistort \<Rightarrow> map (\<lambda>u. unit_of (uniforms s ProgramDistort u))
                             [UBackground, UWaterBack, UWaterFront]
      | ProgramPropagate \<Rightarrow> [0])"

text \<open>\<^verbatim>\<open>gl.drawElements\<close>. WebGL refuses a draw whose program samples a texture that is
  attached to the bound framebuffer (the WebGL specification, "Feedback Loops Between
  Textures and the Framebuffer"): the call raises \<^verbatim>\<open>INVALID_OPERATION\<close> and draws nothing.
  A draw without a current program is refused in the same way. What a draw rasterises is
  recorded with the program, the textures its samplers read and the index count.\<close>

definition gl_drawElements :: "nat \<Rightarrow> world \<Rightarrow> world" where
  "gl_drawElements n s =
     logged GlDrawElements
       (case current_program s of
          None \<Rightarrow> s\<lparr>invalid_operation := True\<rparr>
        | Some p \<Rightarrow>
            (let read = map (texture_binding s) (sampled_units p s)
             in if (case color_attachment s (framebuffer_binding s) of
                       None \<Rightarrow> False
                     | Some t \<Rightarrow> Some t \<in> set read)
                then s\<lparr>invalid_operation := True\<rparr>
                else rasterise (Drawn p read n) s))"

text \<open>Modelled from the spec: \<^verbatim>\<open>WavePainter.prototype.applyInfluences\<close> is not among the
  sources. Influence injection applies zero or more localised height perturbations directly
  into the newly written front buffer; the painter is given by the number of influences it
  holds.\<close>

definition applyInfluences :: "nat \<Rightarrow> world \<Rightarrow> world" where
  "applyInfluences n s =
     logged ApplyInfluences
       (if n = 0 then s
        else (let t = rt_texture (getFront (water s))
              in s\<lparr>pixels := (pixels s)(t := pixels s t @ [Painted n])\<rparr>))"

subsection \<open>propagate and render\<close>

text \<open>\<^verbatim>\<open>Waves.prototype.DEPTH = 0.1\<close>.\<close>

definition DEPTH :: real where
  "DEPTH = 1 / 10"

definition run :: "(world \<Rightarrow> world) list \<Rightarrow> world \<Rightarrow> world" where
  "run stmts s = foldl (\<lambda>s' f. f s') s stmts"

text \<open>\<^verbatim>\<open>Waves.prototype.propagate(water, wavePainter, mesh)\<close>, one statement per line; the
  water plane is the one of the world.\<close>

definition propagate_steps :: "nat \<Rightarrow> mesh \<Rightarrow> (world \<Rightarrow> world) list" where
  "propagate_steps wavePainter m =
     [ shader_use ProgramPropagate,
       water_flip,
       (\<lambda>s. target (getFront (water s)) s),
       gl_clearColor (5 / 10) (5 / 10) 0 0,
       gl_clear,
       (\<lambda>s. gl_uniform2f ProgramPropagate USize (width (water s)) (height (water s)) s),
       (\<lambda>s. gl_uniform1f ProgramPropagate UScale (SCALE (water s)) s),
       gl_uniform1f ProgramPropagate UDamping DAMPING,
       gl_bindBuffer ARRAY_BUFFER (vertices m),
       gl_bindBuffer ELEMENT_ARRAY_BUFFER (indices m),
       gl_enableVertexAttribArray ProgramPropagate,
       gl_vertexAttribPointer ProgramPropagate 2 8 0,
       gl_activeTexture 0,
       (\<lambda>s. gl_bindTexture (rt_texture (getBack (water s))) s),
       gl_texParameteri TEXTURE_MIN_FILTER NEAREST,
       gl_texParameteri TEXTURE_MAG_FILTER NEAREST,
       gl_drawElements (indexCount m),
       gl_texParameteri TEXTURE_MIN_FILTER LINEAR,
       gl_texParameteri TEXTURE_MAG_FILTER LINEAR,
       applyInfluences wavePainter ]"

definition propagate :: "nat \<Rightarrow> mesh \<Rightarrow> world \<Rightarrow> world" where
  "propagate wavePainter m s = run (propagate_steps wavePainter m) s"

text \<open>\<^verbatim>\<open>Waves.prototype.render(background, mesh, water, width, height, scale, time)\<close>.\<close>

definition render_steps :: "nat \<Rightarrow> mesh \<Rightarrow> real \<Rightarrow> real \<Rightarrow> real \<Rightarrow> real \<Rightarrow> (world \<Rightarrow> world) list" where
  "render_steps background m width' height' scale time =
     [ shader_use ProgramDistort,
       gl_uniform1f ProgramDistort UScale scale,
       gl_uniform1i ProgramDistort UBackground 0,
       gl_uniform1i ProgramDistort UWaterBack 1,
       gl_uniform1i ProgramDistort UWaterFront 2,
       gl_uniform1f ProgramDistort UDepth (DEPTH * scale),
       gl_uniform2f ProgramDistort USize width' height',
       (\<lambda>s. gl_uniform2f ProgramDistort UWaterSize (width (water s)) (height (water s)) s),
       gl_uniform1f ProgramDistort UTime time,
       gl_bindBuffer ARRAY_BUFFER (vertices m),
       gl_bindBuffer ELEMENT_ARRAY_BUFFER (indices m),
       gl_enableVertexAttribArray ProgramDistort,
       gl_vertexAttribPointer ProgramDistort 2 8 0,
       gl_activeTexture 0,
       gl_bindTexture background,
       gl_activeTexture 1,
       (\<lambda>s. gl_bindTexture (rt_texture (getBack (water s))) s),
       gl_activeTexture 2,
       (\<lambda>s. gl_bindTexture (rt_texture (getFront (water s))) s),
       gl_drawElements (indexCount m) ]"

definition render :: "nat \<Rightarrow> mesh \<Rightarrow> real \<Rightarrow> real \<Rightarrow> real \<Rightarrow> real \<Rightarrow> world \<Rightarrow> world" where
  "render background m width' height' scale time s =
     run (render_steps background m width' height' scale time) s"

subsection \<open>Sequences of operations, and a concrete world\<close>

datatype operation = Propagate nat mesh | Render nat mesh real real real real

definition statements :: "operation \<Rightarrow> (world \<Rightarrow> world) list" where
  "statements op =
     (case op of
        Propagate wavePainter m \<Rightarrow> propagate_steps wavePainter m
      | Render background m width' height' scale time \<Rightarrow>
          render_steps background m width' height' scale time)"

definition keeps_or_flips :: "(world \<Rightarrow> world) \<Rightarrow> bool" where
  "keeps_or_flips f = (\<forall>s. water (f s) = water s \<or> water (f s) = flip (water s))"

text \<open>A water plane of 4 by 4 cells whose buffers are framebuffer and texture 1 and 2, a
  host framebuffer 3 that renders to texture 3, the canvas as framebuffer 0, and a mesh of
  two triangles.\<close>

definition example_water :: water_plane where
  "example_water =
     \<lparr> buffer_a = \<lparr> rt_framebuffer = 1, rt_texture = 1 \<rparr>,
       buffer_b = \<lparr> rt_framebuffer = 2, rt_texture = 2 \<rparr>,
       front_is_a = True, width = 4, height = 4, SCALE = 1 \<rparr>"

definition example_mesh :: mesh where
  "example_mesh = \<lparr> vertices = 10, indices = 11, indexCount = 6 \<rparr>"

definition example_world :: world where
  "example_world =
     \<lparr> water = example_water,
       current_program = None,
       framebuffer_binding = 0,
       color_attachment = (\<lambda>f. if f = 1 \<or> f = 2 \<or> f = 3 then Some f else None),
       clear_colour = Vec4 0 0 0 0,
       buffer_binding = (\<lambda>_. None),
       enabled_attribs = (\<lambda>_. False),
       attrib_pointer = (\<lambda>_. None),
       active_texture = 0,
       texture_binding = (\<lambda>_. None),
       tex_parameter = (\<lambda>_ _. LINEAR),
       uniforms = (\<lambda>_ _. Unset),
       pixels = (\<lambda>_. []),
       surface = (\<lambda>_. []),
       invalid_operation = False,
       calls = [] \<rparr>"

section \<open>The koi card\<close>

text \<open>
  \<^verbatim>\<open>Card.prototype.initialize\<close>, \<^verbatim>\<open>setName\<close> and \<^verbatim>\<open>free\<close> of \<^verbatim>\<open>card.js\<close>. The card state
  is the fields these methods read or assign; every other field of the card (position,
  angle, the element's transform) is the extension of the record, which the other methods
  of the card update. The preview renderer, the atlas, the palettes, the fish body, the
  document and \<^verbatim>\<open>URL\<close> are not among the sources: the calls made on them are recorded in
  order, and what they hand back is an argument.
\<close>

datatype card_call =
  InitializeSpine
| AtlasWrite
| PreviewRender
| ToBlob
| AtlasReturnRegion "nat option"
| MakeName
| RevokeObjectURL string

record card =
  initialized :: bool
  previewURL :: "string option"
  backgroundImage :: "string option"
  name_children :: "string list"
  region :: "nat option"
  card_calls :: "card_call list"

text \<open>The arguments of \<^verbatim>\<open>initialize\<close>, by what the collaborators do with them: the region
  \<^verbatim>\<open>atlas.write\<close> leaves in \<^verbatim>\<open>this.body.pattern.region\<close>, and the name
  \<^verbatim>\<open>palettes.makeName\<close> returns.\<close>

record initialize_args =
  atlas_region :: "nat option"
  made_name :: string

definition called :: "card_call \<Rightarrow> 'a card_scheme \<Rightarrow> 'a card_scheme" where
  "called k c = c\<lparr>card_calls := card_calls c @ [k]\<rparr>"

text \<open>\<^verbatim>\<open>Card.prototype.setName\<close>: a new \<^verbatim>\<open>h2\<close> element holding the name is appended to the
  name element.\<close>

definition setName :: "string \<Rightarrow> 'a card_scheme \<Rightarrow> 'a card_scheme" where
  "setName n c = c\<lparr>name_children := name_children c @ [n]\<rparr>"

text \<open>\<^verbatim>\<open>Card.prototype.initialize\<close>. The callback handed to \<^verbatim>\<open>toBlob\<close> runs later, as
  \<open>blob_ready\<close>.\<close>

definition initialize :: "initialize_args \<Rightarrow> 'a card_scheme \<Rightarrow> 'a card_scheme" where
  "initialize a c =
     (if initialized c then c
      else (let c1 = c\<lparr>initialized := True\<rparr>;
                createdTexture = (region c1 = None);
                c2 = (if region c1 = None
                      then (called AtlasWrite (called InitializeSpine c1))\<lparr>region := atlas_region a\<rparr>
                      else c1);
                c3 = called ToBlob (called PreviewRender c2);
                c4 = (if createdTexture
                      then (called (AtlasReturnRegion (region c3)) c3)\<lparr>region := None\<rparr>
                      else c3)
            in setName (made_name a) (called MakeName c4)))"

text \<open>The callback of \<^verbatim>\<open>toBlob\<close> in \<^verbatim>\<open>initialize\<close>, run with the URL that
  \<^verbatim>\<open>URL.createObjectURL(blob)\<close> returns.\<close>

definition blob_ready :: "string \<Rightarrow> 'a card_scheme \<Rightarrow> 'a card_scheme" where
  "blob_ready url c =
     (if \<not> initialized c then c
      else c\<lparr>previewURL := Some url, backgroundImage := Some (''url('' @ url @ '')'')\<rparr>)"

text \<open>\<^verbatim>\<open>Card.prototype.free\<close>. The test \<^verbatim>\<open>if (this.previewURL)\<close> fails for \<^verbatim>\<open>null\<close> and for
  the empty string.\<close>

definition free :: "'a card_scheme \<Rightarrow> 'a card_scheme" where
  "free c =
     (case previewURL c of
        None \<Rightarrow> c
      | Some url \<Rightarrow> if url = [] then c else called (RevokeObjectURL url) c)
     \<lparr>initialized := False\<rparr>"

text \<open>What can happen to a card between two calls of \<^verbatim>\<open>initialize\<close>: the methods above, the
  blob callback, and the other methods of the card (\<^verbatim>\<open>render\<close>, \<^verbatim>\<open>moveTo\<close>, \<^verbatim>\<open>move\<close>,
  \<^verbatim>\<open>rotate\<close>, \<^verbatim>\<open>setPosition\<close>, \<^verbatim>\<open>setRotation\<close>, \<^verbatim>\<open>updatePosition\<close>, \<^verbatim>\<open>transformSlot\<close>), which
  assign only fields of the extension.\<close>

datatype 'a card_op =
  Initialize initialize_args
| SetName string
| BlobReady string
| Free
| Other "'a \<Rightarrow> 'a"

definition card_step :: "'a card_op \<Rightarrow> 'a card_scheme \<Rightarrow> 'a card_scheme" where
  "card_step op c =
     (case op of
        Initialize a \<Rightarrow> initialize a c
      | SetName n \<Rightarrow> setName n c
      | BlobReady url \<Rightarrow> blob_ready url c
      | Free \<Rightarrow> free c
      | Other f \<Rightarrow> c\<lparr>card.more := f (card.more c)\<rparr>)"

definition card_run :: "'a card_op list \<Rightarrow> 'a card_scheme \<Rightarrow> 'a card_scheme" where
  "card_run ops c = foldl (\<lambda>c' op. card_step op c') c ops"

text \<open>A card as the constructor leaves it, with no further fields, and arguments for
  \<^verbatim>\<open>initialize\<close>.\<close>

definition new_card :: card where
  "new_card = \<lparr> initialized = False, previewURL = None, backgroundImage = None,
                 name_children = [], region = None, card_calls = [] \<rparr>"

definition example_args :: initialize_args where
  "example_args = \<lparr> atlas_region = Some 5, made_name = ''Kohaku'' \<rparr>"

section \<open>The height field under repeated propagation\<close>

text \<open>
  The propagation draw runs the fragment shader once for every cell of the front buffer,
  reading the back buffer through a sampler. \<^verbatim>\<open>propagate\<close> sets the \<^verbatim>\<open>size\<close> uniform to the
  dimensions of the water plane and switches the back texture to \<^verbatim>\<open>NEAREST\<close> filtering
  before the draw. The wrap mode of the textures is set where they are created, which is
  not among the sources: it is a parameter, one of the three wrap modes of WebGL 1, for
  each axis. The draw is taken to cover every cell, and no influences are painted between
  the steps.
\<close>

datatype wrap_mode = CLAMP_TO_EDGE | REPEAT | MIRRORED_REPEAT

text \<open>The texel index that a wrap mode makes of an integer index, for an axis of \<open>n\<close>
  texels.\<close>

definition wrap_index :: "wrap_mode \<Rightarrow> nat \<Rightarrow> int \<Rightarrow> nat" where
  "wrap_index w n i =
     (case w of
        CLAMP_TO_EDGE \<Rightarrow> nat (max 0 (min (int n - 1) i))
      | REPEAT \<Rightarrow> nat (i mod int n)
      | MIRRORED_REPEAT \<Rightarrow>
          (let p = i mod (2 * int n) in nat (if p < int n then p else 2 * int n - 1 - p)))"

record height_field =
  cells_x :: nat
  cells_y :: nat
  texel :: "nat \<Rightarrow> nat \<Rightarrow> vec4"

text \<open>Whether a number of texels is a power of two.\<close>

fun power_of_two :: "nat \<Rightarrow> bool" where
  "power_of_two n = (if n \<le> 1 then n = 1 else even n \<and> power_of_two (n div 2))"

text \<open>Texture completeness in WebGL 1, for a texture without mipmaps under \<^verbatim>\<open>NEAREST\<close>
  filtering: a texture whose width or height is not a power of two is complete only when
  both wrap modes are \<^verbatim>\<open>CLAMP_TO_EDGE\<close>.\<close>

definition texture_complete :: "wrap_mode \<Rightarrow> wrap_mode \<Rightarrow> height_field \<Rightarrow> bool" where
  "texture_complete ws wt F \<longleftrightarrow>
     (ws = CLAMP_TO_EDGE \<and> wt = CLAMP_TO_EDGE)
     \<or> (power_of_two (cells_x F) \<and> power_of_two (cells_y F))"

text \<open>\<^verbatim>\<open>texture2D\<close> on a texture with \<^verbatim>\<open>NEAREST\<close> filtering: the texel whose cell contains
  the coordinate, wrapped. Sampling a texture that is not complete returns
  \<open>(0, 0, 0, 1)\<close> whatever the texture holds.\<close>

definition nearest :: "wrap_mode \<Rightarrow> wrap_mode \<Rightarrow> height_field \<Rightarrow> sampler2D" where
  "nearest ws wt F uv =
     (if texture_complete ws wt F
      then texel F (wrap_index ws (cells_x F) \<lfloor>vx uv * real (cells_x F)\<rfloor>)
                   (wrap_index wt (cells_y F) \<lfloor>vy uv * real (cells_y F)\<rfloor>)
      else Vec4 0 0 0 1)"

text \<open>One propagation step over the whole field: the fragment of cell \<open>(x, y)\<close> has its
  centre at \<^verbatim>\<open>gl_FragCoord.xy\<close> \<open>= (x + 0.5, y + 0.5)\<close>.\<close>

definition propagation_step :: "wrap_mode \<Rightarrow> wrap_mode \<Rightarrow> real \<Rightarrow> height_field \<Rightarrow> height_field" where
  "propagation_step ws wt damping F =
     F\<lparr>texel := (\<lambda>x y. propagate_fragment (nearest ws wt F)
                           (Vec2 (real (cells_x F)) (real (cells_y F))) damping
                           (Vec2 (real x + 1 / 2) (real y + 1 / 2)))\<rparr>"

definition propagation :: "wrap_mode \<Rightarrow> wrap_mode \<Rightarrow> real \<Rightarrow> nat \<Rightarrow> height_field \<Rightarrow> height_field" where
  "propagation ws wt damping n F = (propagation_step ws wt damping ^^ n) F"

text \<open>The total field energy: the sum over the cells of the squared height, decoded from the
  red channel as the shading stage does (\<open>v * 6 - 3\<close>).\<close>

definition energy :: "height_field \<Rightarrow> real" where
  "energy F = (\<Sum>x<cells_x F. \<Sum>y<cells_y F. (spec_decode (red (texel F x y)))\<^sup>2)"

text \<open>The signed value of a cell, as the propagation shader reads it back (\<open>v * 2 - 1\<close>), and
  the momentum that the shader reconstructs from the green and blue channels.\<close>

definition signed_height :: "height_field \<Rightarrow> nat \<Rightarrow> nat \<Rightarrow> real" where
  "signed_height F x y = red (texel F x y) * 2 - 1"

definition momentum_of :: "height_field \<Rightarrow> nat \<Rightarrow> nat \<Rightarrow> real" where
  "momentum_of F x y = (green (texel F x y) + blue (texel F x y)) * 2 - 1"

text \<open>The sum of the four axis neighbours of a cell, for a function on the cells.\<close>

definition neighbour_sum ::
  "wrap_mode \<Rightarrow> wrap_mode \<Rightarrow> nat \<Rightarrow> nat \<Rightarrow> (nat \<Rightarrow> nat \<Rightarrow> real) \<Rightarrow> nat \<Rightarrow> nat \<Rightarrow> real" where
  "neighbour_sum ws wt nx ny f x y =
       f (wrap_index ws nx (int x - 1)) y + f (wrap_index ws nx (int x + 1)) y
     + f x (wrap_index wt ny (int y - 1)) + f x (wrap_index wt ny (int y + 1))"

text \<open>The quantity that one propagation step scales by exactly the damping: with \<open>u\<close> the
  signed heights and \<open>p\<close> the momenta,
  \<open>\<Sum> u\<^sup>2 - damping / 2 * \<Sum> u * (neighbour sum of p) + damping * \<Sum> p\<^sup>2\<close>.\<close>

definition wave_energy :: "wrap_mode \<Rightarrow> wrap_mode \<Rightarrow> real \<Rightarrow> height_field \<Rightarrow> real" where
  "wave_energy ws wt damping F =
     (\<Sum>x<cells_x F. \<Sum>y<cells_y F.
        (signed_height F x y)\<^sup>2
        - damping / 2 * (signed_height F x y
            * neighbour_sum ws wt (cells_x F) (cells_y F) (momentum_of F) x y)
        + damping * (momentum_of F x y)\<^sup>2)"

text \<open>A field of \<open>nx\<close> by \<open>ny\<close> cells at the neutral state \<open>(0.5, 0.5, 0, 0)\<close>, the clear colour
  of \<^verbatim>\<open>propagate\<close>, but for a single impulse: the red channel of cell \<open>(cx, cy)\<close> is \<open>r\<close>. Its
  momentum is zero everywhere.\<close>

definition impulse_field :: "nat \<Rightarrow> nat \<Rightarrow> nat \<Rightarrow> nat \<Rightarrow> real \<Rightarrow> height_field" where
  "impulse_field nx ny cx cy r =
     \<lparr> cells_x = nx, cells_y = ny,
       texel = (\<lambda>x y. if x = cx \<and> y = cy then Vec4 r (1 / 2) 0 0 else Vec4 (1 / 2) (1 / 2) 0 0) \<rparr>"

section \<open>Verification\<close>

subsection \<open>Lemmas about the shaders\<close>

lemmas glsl_defs = texture2D_def vec2_add_def vec2_sub_def vec2_div_def vec2_scale_def xz_def
  rgb_def vec4_mul_def vec4_all_def mix_def mix4_def dot_def cross_def normalize_def

lemma get_flat:
  assumes "\<forall>uv. red (waterBack uv) = 1 / 2" and "\<forall>uv. red (waterFront uv) = 1 / 2"
  shows "get waterBack waterFront size' waterSize time fragCoord delta = 0"
  by (simp add: get_def texture2D_def mix_def Let_def assms) (simp add: field_simps)

subsection \<open>Lemmas about the driver: what each call changes\<close>

lemmas gl_defs = logged_def shader_use_def water_flip_def target_def gl_clearColor_def rasterise_def
  gl_clear_def gl_uniform1f_def gl_uniform2f_def gl_uniform1i_def gl_bindBuffer_def
  gl_enableVertexAttribArray_def gl_vertexAttribPointer_def gl_activeTexture_def gl_bindTexture_def
  gl_texParameteri_def gl_drawElements_def applyInfluences_def

lemma water_steps:
  "water (shader_use p s) = water s"
  "water (water_flip s) = flip (water s)"
  "water (target rt s) = water s"
  "water (gl_clearColor r g b a s) = water s"
  "water (gl_clear s) = water s"
  "water (gl_uniform1f p u x s) = water s"
  "water (gl_uniform2f p u x y s) = water s"
  "water (gl_uniform1i p u n s) = water s"
  "water (gl_bindBuffer bt b' s) = water s"
  "water (gl_enableVertexAttribArray p s) = water s"
  "water (gl_vertexAttribPointer p k stride offset s) = water s"
  "water (gl_activeTexture unit s) = water s"
  "water (gl_bindTexture t s) = water s"
  "water (gl_texParameteri pname f s) = water s"
  "water (gl_drawElements k s) = water s"
  "water (applyInfluences k s) = water s"
  by (simp_all add: gl_defs Let_def split: option.splits)

lemma flip_roles: "getFront (flip w) = getBack w" "getBack (flip w) = getFront w"
  by (simp_all add: getFront_def getBack_def flip_def)

lemma run_Nil: "run [] s = s" by (simp add: run_def)
lemma run_Cons: "run (f # fs) s = run fs (f s)" by (simp add: run_def)
lemma run_append: "run (fs @ gs) s = run gs (run fs s)" by (simp add: run_def)

lemma water_propagate: "water (propagate n m s) = flip (water s)"
  by (simp add: propagate_def propagate_steps_def run_Nil run_Cons water_steps)

lemma water_render: "water (render bg m w h sc t s) = water s"
  by (simp add: render_def render_steps_def run_Nil run_Cons water_steps)

lemma run_distinct:
  "\<lbrakk> \<forall>f \<in> set stmts. keeps_or_flips f; getFront (water s) \<noteq> getBack (water s) \<rbrakk>
   \<Longrightarrow> getFront (water (run stmts s)) \<noteq> getBack (water (run stmts s))"
proof (induction stmts arbitrary: s)
  case Nil
  then show ?case by (simp add: run_Nil)
next
  case (Cons f fs)
  have "water (f s) = water s \<or> water (f s) = flip (water s)"
    using Cons.prems(1) by (simp add: keeps_or_flips_def)
  then have "getFront (water (f s)) \<noteq> getBack (water (f s))"
    using Cons.prems(2) by (auto simp: flip_roles)
  then show ?case using Cons by (simp add: run_Cons)
qed

lemma propagate_steps_keep: "\<forall>f \<in> set (propagate_steps n m). keeps_or_flips f"
  by (simp add: propagate_steps_def keeps_or_flips_def water_steps)

lemma render_steps_keep: "\<forall>f \<in> set (render_steps bg m w h sc t). keeps_or_flips f"
  by (simp add: render_steps_def keeps_or_flips_def water_steps)

lemma take_keep: "\<forall>f \<in> set xs. P f \<Longrightarrow> \<forall>f \<in> set (take k xs). P f"
  by (meson in_set_takeD)

lemma calls_steps:
  "calls (shader_use p s) = calls s @ [ShaderUse p]"
  "calls (water_flip s) = calls s @ [WaterFlip]"
  "calls (target rt s) = calls s @ [RenderTargetTarget (rt_framebuffer rt)]"
  "calls (gl_clearColor r g b a s) = calls s @ [GlClearColor]"
  "calls (gl_clear s) = calls s @ [GlClear]"
  "calls (gl_uniform1f p u x s) = calls s @ [GlUniform p u]"
  "calls (gl_uniform2f p u x y s) = calls s @ [GlUniform p u]"
  "calls (gl_uniform1i p u n s) = calls s @ [GlUniform p u]"
  "calls (gl_bindBuffer bt b' s) = calls s @ [GlBindBuffer bt]"
  "calls (gl_enableVertexAttribArray p s) = calls s @ [GlEnableVertexAttribArray]"
  "calls (gl_vertexAttribPointer p k stride offset s) = calls s @ [GlVertexAttribPointer]"
  "calls (gl_activeTexture unit s) = calls s @ [GlActiveTexture unit]"
  "calls (gl_bindTexture t s) = calls s @ [GlBindTexture t]"
  "calls (gl_texParameteri pname f s) = calls s @ [GlTexParameteri pname f]"
  "calls (gl_drawElements k s) = calls s @ [GlDrawElements]"
  "calls (applyInfluences k s) = calls s @ [ApplyInfluences]"
  by (simp_all add: gl_defs Let_def split: option.splits)

lemma framebuffer_steps:
  "framebuffer_binding (shader_use p s) = framebuffer_binding s"
  "framebuffer_binding (water_flip s) = framebuffer_binding s"
  "framebuffer_binding (target rt s) = rt_framebuffer rt"
  "framebuffer_binding (gl_clearColor r g b a s) = framebuffer_binding s"
  "framebuffer_binding (gl_clear s) = framebuffer_binding s"
  "framebuffer_binding (gl_uniform1f p u x s) = framebuffer_binding s"
  "framebuffer_binding (gl_uniform2f p u x y s) = framebuffer_binding s"
  "framebuffer_binding (gl_uniform1i p u n s) = framebuffer_binding s"
  "framebuffer_binding (gl_bindBuffer bt b' s) = framebuffer_binding s"
  "framebuffer_binding (gl_enableVertexAttribArray p s) = framebuffer_binding s"
  "framebuffer_binding (gl_vertexAttribPointer p k stride offset s) = framebuffer_binding s"
  "framebuffer_binding (gl_activeTexture unit s) = framebuffer_binding s"
  "framebuffer_binding (gl_bindTexture t s) = framebuffer_binding s"
  "framebuffer_binding (gl_texParameteri pname f s) = framebuffer_binding s"
  "framebuffer_binding (gl_drawElements k s) = framebuffer_binding s"
  "framebuffer_binding (applyInfluences k s) = framebuffer_binding s"
  by (simp_all add: gl_defs Let_def split: option.splits)

lemma attachment_steps:
  "color_attachment (shader_use p s) = color_attachment s"
  "color_attachment (water_flip s) = color_attachment s"
  "color_attachment (target rt s) = color_attachment s"
  "color_attachment (gl_clearColor r g b a s) = color_attachment s"
  "color_attachment (gl_clear s) = color_attachment s"
  "color_attachment (gl_uniform1f p u x s) = color_attachment s"
  "color_attachment (gl_uniform2f p u x y s) = color_attachment s"
  "color_attachment (gl_uniform1i p u n s) = color_attachment s"
  "color_attachment (gl_bindBuffer bt b' s) = color_attachment s"
  "color_attachment (gl_enableVertexAttribArray p s) = color_attachment s"
  "color_attachment (gl_vertexAttribPointer p k stride offset s) = color_attachment s"
  "color_attachment (gl_activeTexture unit s) = color_attachment s"
  "color_attachment (gl_bindTexture t s) = color_attachment s"
  "color_attachment (gl_texParameteri pname f s) = color_attachment s"
  "color_attachment (gl_drawElements k s) = color_attachment s"
  "color_attachment (applyInfluences k s) = color_attachment s"
  by (simp_all add: gl_defs Let_def split: option.splits)

lemma program_steps:
  "current_program (shader_use p s) = Some p"
  "current_program (water_flip s) = current_program s"
  "current_program (target rt s) = current_program s"
  "current_program (gl_clearColor r g b a s) = current_program s"
  "current_program (gl_clear s) = current_program s"
  "current_program (gl_uniform1f p u x s) = current_program s"
  "current_program (gl_uniform2f p u x y s) = current_program s"
  "current_program (gl_uniform1i p u n s) = current_program s"
  "current_program (gl_bindBuffer bt b' s) = current_program s"
  "current_program (gl_enableVertexAttribArray p s) = current_program s"
  "current_program (gl_vertexAttribPointer p k stride offset s) = current_program s"
  "current_program (gl_activeTexture unit s) = current_program s"
  "current_program (gl_bindTexture t s) = current_program s"
  "current_program (gl_texParameteri pname f s) = current_program s"
  "current_program (gl_drawElements k s) = current_program s"
  "current_program (applyInfluences k s) = current_program s"
  by (simp_all add: gl_defs Let_def split: option.splits)

lemma active_steps:
  "active_texture (shader_use p s) = active_texture s"
  "active_texture (water_flip s) = active_texture s"
  "active_texture (target rt s) = active_texture s"
  "active_texture (gl_clearColor r g b a s) = active_texture s"
  "active_texture (gl_clear s) = active_texture s"
  "active_texture (gl_uniform1f p u x s) = active_texture s"
  "active_texture (gl_uniform2f p u x y s) = active_texture s"
  "active_texture (gl_uniform1i p u n s) = active_texture s"
  "active_texture (gl_bindBuffer bt b' s) = active_texture s"
  "active_texture (gl_enableVertexAttribArray p s) = active_texture s"
  "active_texture (gl_vertexAttribPointer p k stride offset s) = active_texture s"
  "active_texture (gl_activeTexture unit s) = unit"
  "active_texture (gl_bindTexture t s) = active_texture s"
  "active_texture (gl_texParameteri pname f s) = active_texture s"
  "active_texture (gl_drawElements k s) = active_texture s"
  "active_texture (applyInfluences k s) = active_texture s"
  by (simp_all add: gl_defs Let_def split: option.splits)

lemma binding_steps:
  "texture_binding (shader_use p s) = texture_binding s"
  "texture_binding (water_flip s) = texture_binding s"
  "texture_binding (target rt s) = texture_binding s"
  "texture_binding (gl_clearColor r g b a s) = texture_binding s"
  "texture_binding (gl_clear s) = texture_binding s"
  "texture_binding (gl_uniform1f p u x s) = texture_binding s"
  "texture_binding (gl_uniform2f p u x y s) = texture_binding s"
  "texture_binding (gl_uniform1i p u n s) = texture_binding s"
  "texture_binding (gl_bindBuffer bt b' s) = texture_binding s"
  "texture_binding (gl_enableVertexAttribArray p s) = texture_binding s"
  "texture_binding (gl_vertexAttribPointer p k stride offset s) = texture_binding s"
  "texture_binding (gl_activeTexture unit s) = texture_binding s"
  "texture_binding (gl_bindTexture t s) = (texture_binding s)(active_texture s := Some t)"
  "texture_binding (gl_texParameteri pname f s) = texture_binding s"
  "texture_binding (gl_drawElements k s) = texture_binding s"
  "texture_binding (applyInfluences k s) = texture_binding s"
  by (simp_all add: gl_defs Let_def split: option.splits)

lemma uniform_steps:
  "uniforms (shader_use p s) = uniforms s"
  "uniforms (water_flip s) = uniforms s"
  "uniforms (target rt s) = uniforms s"
  "uniforms (gl_clearColor r g b a s) = uniforms s"
  "uniforms (gl_clear s) = uniforms s"
  "uniforms (gl_uniform1f p u x s) = (uniforms s)(p := (uniforms s p)(u := Set1f x))"
  "uniforms (gl_uniform2f p u x y s) = (uniforms s)(p := (uniforms s p)(u := Set2f x y))"
  "uniforms (gl_uniform1i p u n s) = (uniforms s)(p := (uniforms s p)(u := Set1i n))"
  "uniforms (gl_bindBuffer bt b' s) = uniforms s"
  "uniforms (gl_enableVertexAttribArray p s) = uniforms s"
  "uniforms (gl_vertexAttribPointer p k stride offset s) = uniforms s"
  "uniforms (gl_activeTexture unit s) = uniforms s"
  "uniforms (gl_bindTexture t s) = uniforms s"
  "uniforms (gl_texParameteri pname f s) = uniforms s"
  "uniforms (gl_drawElements k s) = uniforms s"
  "uniforms (applyInfluences k s) = uniforms s"
  by (simp_all add: gl_defs Let_def split: option.splits)

lemma pixels_steps:
  "pixels (shader_use p s) = pixels s"
  "pixels (water_flip s) = pixels s"
  "pixels (target rt s) = pixels s"
  "pixels (gl_clearColor r g b a s) = pixels s"
  "pixels (gl_uniform1f p u x s) = pixels s"
  "pixels (gl_uniform2f p u x y s) = pixels s"
  "pixels (gl_uniform1i p u n s) = pixels s"
  "pixels (gl_bindBuffer bt b' s) = pixels s"
  "pixels (gl_enableVertexAttribArray p s) = pixels s"
  "pixels (gl_vertexAttribPointer p k stride offset s) = pixels s"
  "pixels (gl_activeTexture unit s) = pixels s"
  "pixels (gl_bindTexture t s) = pixels s"
  "pixels (gl_texParameteri pname f s) = pixels s"
  by (simp_all add: gl_defs Let_def split: option.splits)

lemma surface_steps:
  "surface (shader_use p s) = surface s"
  "surface (water_flip s) = surface s"
  "surface (target rt s) = surface s"
  "surface (gl_clearColor r g b a s) = surface s"
  "surface (gl_uniform1f p u x s) = surface s"
  "surface (gl_uniform2f p u x y s) = surface s"
  "surface (gl_uniform1i p u n s) = surface s"
  "surface (gl_bindBuffer bt b' s) = surface s"
  "surface (gl_enableVertexAttribArray p s) = surface s"
  "surface (gl_vertexAttribPointer p k stride offset s) = surface s"
  "surface (gl_activeTexture unit s) = surface s"
  "surface (gl_bindTexture t s) = surface s"
  "surface (gl_texParameteri pname f s) = surface s"
  "surface (applyInfluences k s) = surface s"
  by (simp_all add: gl_defs Let_def split: option.splits)

lemma filter_steps:
  "tex_parameter (shader_use p s) = tex_parameter s"
  "tex_parameter (water_flip s) = tex_parameter s"
  "tex_parameter (target rt s) = tex_parameter s"
  "tex_parameter (gl_clearColor r g b a s) = tex_parameter s"
  "tex_parameter (gl_clear s) = tex_parameter s"
  "tex_parameter (gl_uniform1f p u x s) = tex_parameter s"
  "tex_parameter (gl_uniform2f p u x y s) = tex_parameter s"
  "tex_parameter (gl_uniform1i p u n s) = tex_parameter s"
  "tex_parameter (gl_bindBuffer bt b' s) = tex_parameter s"
  "tex_parameter (gl_enableVertexAttribArray p s) = tex_parameter s"
  "tex_parameter (gl_vertexAttribPointer p k stride offset s) = tex_parameter s"
  "tex_parameter (gl_activeTexture unit s) = tex_parameter s"
  "tex_parameter (gl_bindTexture t s) = tex_parameter s"
  "tex_parameter (gl_drawElements k s) = tex_parameter s"
  "tex_parameter (applyInfluences k s) = tex_parameter s"
  by (simp_all add: gl_defs Let_def split: option.splits)


lemmas step_simps = water_steps calls_steps framebuffer_steps attachment_steps program_steps
  active_steps binding_steps uniform_steps pixels_steps surface_steps filter_steps

lemma render_split:
  "render background m width' height' scale time s =
     gl_drawElements (indexCount m) (run (take 19 (render_steps background m width' height' scale time)) s)"
  by (simp add: render_def render_steps_def run_Cons run_Nil)

lemma render_at_draw:
  fixes s :: world and background :: nat and m :: mesh and width' height' scale time :: real
  defines "d \<equiv> run (take 19 (render_steps background m width' height' scale time)) s"
  shows "water d = water s" 
    "pixels d = pixels s" "surface d = surface s"
    "framebuffer_binding d = framebuffer_binding s"
    "color_attachment d = color_attachment s"
    "current_program d = Some ProgramDistort"
    "map (texture_binding d) (sampled_units ProgramDistort d) =
       [Some background, Some (rt_texture (getBack (water s))), Some (rt_texture (getFront (water s)))]"
  unfolding d_def
  by (simp_all add: render_steps_def run_Cons run_Nil step_simps sampled_units_def unit_of_def)


lemma draw_pixels:
  "pixels (gl_drawElements n d) t \<noteq> pixels d t \<Longrightarrow>
     color_attachment d (framebuffer_binding d) = Some t \<and>
     (\<exists>p. current_program d = Some p \<and> Some t \<notin> set (map (texture_binding d) (sampled_units p d)))"
  by (auto simp: gl_drawElements_def logged_def rasterise_def Let_def split: option.splits if_splits)

lemma draw_surface:
  "surface (gl_drawElements n d) f \<noteq> surface d f \<Longrightarrow>
     f = framebuffer_binding d \<and> color_attachment d f = None"
  by (auto simp: gl_drawElements_def logged_def rasterise_def Let_def split: option.splits if_splits)

lemma propagate_calls:
  "calls (propagate n m s) = calls s @
     [ShaderUse ProgramPropagate, WaterFlip, RenderTargetTarget (rt_framebuffer (getBack (water s))),
      GlClearColor, GlClear, GlUniform ProgramPropagate USize, GlUniform ProgramPropagate UScale,
      GlUniform ProgramPropagate UDamping, GlBindBuffer ARRAY_BUFFER, GlBindBuffer ELEMENT_ARRAY_BUFFER,
      GlEnableVertexAttribArray, GlVertexAttribPointer, GlActiveTexture 0,
      GlBindTexture (rt_texture (getFront (water s))),
      GlTexParameteri TEXTURE_MIN_FILTER NEAREST, GlTexParameteri TEXTURE_MAG_FILTER NEAREST,
      GlDrawElements,
      GlTexParameteri TEXTURE_MIN_FILTER LINEAR, GlTexParameteri TEXTURE_MAG_FILTER LINEAR,
      ApplyInfluences]"
  by (simp add: propagate_def propagate_steps_def run_Cons run_Nil step_simps flip_roles)

lemma propagate_split:
  "propagate n m s =
     run (drop 17 (propagate_steps n m))
       (gl_drawElements (indexCount m) (run (take 16 (propagate_steps n m)) s))"
  by (simp add: propagate_def propagate_steps_def run_Cons run_Nil)

lemma propagate_at_draw:
  fixes s :: world and n :: nat and m :: mesh
  defines "d \<equiv> run (take 16 (propagate_steps n m)) s"
  shows "water d = flip (water s)"
    "framebuffer_binding d = rt_framebuffer (getFront (water d))"
    "texture_binding d 0 = Some (rt_texture (getBack (water d)))"
    "current_program d = Some ProgramPropagate"
    "uniforms d ProgramPropagate UDamping = Set1f DAMPING"
    "water (propagate n m s) = water d"
  unfolding d_def
  by (simp_all add: propagate_def propagate_steps_def run_Cons run_Nil step_simps flip_roles)


lemma propagate_damping_uniform:
  "uniforms (propagate n m s) ProgramPropagate UDamping = Set1f DAMPING"
  by (simp add: propagate_def propagate_steps_def run_Cons run_Nil step_simps)

lemma propagate_leaves_bound:
  "framebuffer_binding (propagate n m s) = rt_framebuffer (getBack (water s))"
  "color_attachment (propagate n m s) = color_attachment s"
  by (simp_all add: propagate_def propagate_steps_def run_Cons run_Nil step_simps flip_roles)

lemma statements_keep: "\<forall>f \<in> set (concat (map statements ops)). keeps_or_flips f"
  using propagate_steps_keep render_steps_keep
  by (auto simp: statements_def split: operation.splits)

lemmas example_defs = example_world_def example_water_def example_mesh_def

lemma render_draws_surface:
  assumes "color_attachment s (framebuffer_binding s) = None"
  shows "surface (render background m width' height' scale time s) (framebuffer_binding s) =
           surface s (framebuffer_binding s) @
             [Drawn ProgramDistort [Some background, Some (rt_texture (getBack (water s))),
                Some (rt_texture (getFront (water s)))] (indexCount m)]"
proof -
  define d where "d = run (take 19 (render_steps background m width' height' scale time)) s"
  note at = render_at_draw[of background m width' height' scale time s, folded d_def]
  have "surface (gl_drawElements (indexCount m) d) (framebuffer_binding d) =
          surface d (framebuffer_binding d) @
            [Drawn ProgramDistort (map (texture_binding d) (sampled_units ProgramDistort d)) (indexCount m)]"
    using assms at(4,5,6)
    by (simp add: gl_drawElements_def logged_def rasterise_def Let_def)
  then show ?thesis
    by (simp add: render_split at flip: d_def)
qed

lemma render_draws_texture:
  assumes "color_attachment s (framebuffer_binding s) = Some t"
    and "t \<noteq> background" and "t \<noteq> rt_texture (getBack (water s))"
    and "t \<noteq> rt_texture (getFront (water s))"
  shows "pixels (render background m width' height' scale time s) t =
           pixels s t @
             [Drawn ProgramDistort [Some background, Some (rt_texture (getBack (water s))),
                Some (rt_texture (getFront (water s)))] (indexCount m)]"
proof -
  define d where "d = run (take 19 (render_steps background m width' height' scale time)) s"
  note at = render_at_draw[of background m width' height' scale time s, folded d_def]
  have "pixels (gl_drawElements (indexCount m) d) t =
          pixels d t @
            [Drawn ProgramDistort (map (texture_binding d) (sampled_units ProgramDistort d)) (indexCount m)]"
    using assms at(4,5,6)
    by (simp add: gl_drawElements_def logged_def rasterise_def Let_def at(7))
  then show ?thesis
    by (simp add: render_split at flip: d_def)
qed

lemma example_facts:
  "water example_world = example_water"
  "getFront example_water = \<lparr> rt_framebuffer = 1, rt_texture = 1 \<rparr>"
  "getBack example_water = \<lparr> rt_framebuffer = 2, rt_texture = 2 \<rparr>"
  "framebuffer_binding example_world = 0"
  "color_attachment example_world = (\<lambda>f. if f = 1 \<or> f = 2 \<or> f = 3 then Some f else None)"
  "pixels example_world = (\<lambda>_. [])"
  "surface example_world = (\<lambda>_. [])"
  "calls example_world = []"
  "indexCount example_mesh = 6"
  by (simp_all add: example_defs getFront_def getBack_def)

subsection \<open>The propagation shader\<close>

text \<open>
  Claim C1. For the fragment of any cell, the propagation shader writes
  \<open>vec4(((newHeight - momentum) * damping) * 0.5 + 0.5, previousHeight, 0, 0)\<close>, where
  \<open>momentum = (m1 + m2) * 2 - 1\<close> from the cell's green and blue channels, \<open>newHeight\<close> is the
  sum of the red channels of the four axis neighbours (one texel step \<open>1 / size\<close> away in
  each direction) minus 2 and \<open>previousHeight\<close> is the cell's red channel; the damping
  constant is 0.995, and it is the value \<^verbatim>\<open>propagate\<close> leaves in the \<^verbatim>\<open>damping\<close> uniform.
\<close>

theorem propagate_fragment_writes_state:
  fixes source :: sampler2D and size' fragCoord :: vec2
  defines "u \<equiv> vx fragCoord / vx size'" and "v \<equiv> vy fragCoord / vy size'"
  defines "cell \<equiv> source (Vec2 u v)"
  defines "momentum \<equiv> (green cell + blue cell) * 2 - 1"
  defines "newHeight \<equiv>
             red (source (Vec2 (u - 1 / vx size') v)) + red (source (Vec2 (u + 1 / vx size') v))
           + red (source (Vec2 u (v - 1 / vy size'))) + red (source (Vec2 u (v + 1 / vy size')))
           - 2"
  defines "previousHeight \<equiv> red cell"
  shows "propagate_fragment source size' DAMPING fragCoord =
           Vec4 (((newHeight - momentum) * 0.995) * 0.5 + 0.5) previousHeight 0 0
         \<and> DAMPING = 0.995
         \<and> uniforms (propagate wavePainter m s) ProgramPropagate UDamping = Set1f DAMPING"
  unfolding assms
  by (simp add: propagate_fragment_def DAMPING_def texture2D_def vec2_div_def rgb_def Let_def
      propagate_damping_uniform[unfolded DAMPING_def])

subsection \<open>The buffer roles\<close>

text \<open>
  Claim C2. After a call of \<^verbatim>\<open>propagate\<close> the buffer that was the front is the back and the
  buffer that was the back is the front; and when the water plane holds two different
  buffers, front and back differ after every statement of every sequence of \<^verbatim>\<open>propagate\<close>
  and \<^verbatim>\<open>render\<close> calls, whatever their arguments (\<open>take k\<close> cuts the sequence after its
  first \<open>k\<close> statements).
\<close>

theorem propagate_swaps_buffer_roles:
  assumes "getFront (water s) \<noteq> getBack (water s)"
  shows "getBack (water (propagate wavePainter m s)) = getFront (water s)
       \<and> getFront (water (propagate wavePainter m s)) = getBack (water s)
       \<and> (\<forall>ops k. getFront (water (run (take k (concat (map statements ops))) s))
                 \<noteq> getBack (water (run (take k (concat (map statements ops))) s)))"
proof -
  have "getFront (water (run (take k (concat (map statements ops))) s))
          \<noteq> getBack (water (run (take k (concat (map statements ops))) s))" for ops k
    using run_distinct[OF take_keep[OF statements_keep] assms] .
  then show ?thesis
    by (simp add: water_propagate flip_roles)
qed

theorem propagate_swaps_buffer_roles_witness:
  "getFront (water example_world) \<noteq> getBack (water example_world)
   \<and> getFront (water example_world) = \<lparr> rt_framebuffer = 1, rt_texture = 1 \<rparr>
   \<and> getBack (water (propagate 0 example_mesh example_world)) = \<lparr> rt_framebuffer = 1, rt_texture = 1 \<rparr>
   \<and> getFront (water (propagate 0 example_mesh example_world)) = \<lparr> rt_framebuffer = 2, rt_texture = 2 \<rparr>
   \<and> getFront (water (run (take 25 (concat (map statements
          [Propagate 0 example_mesh, Render 7 example_mesh 4 4 1 0]))) example_world))
     \<noteq> getBack (water (run (take 25 (concat (map statements
          [Propagate 0 example_mesh, Render 7 example_mesh 4 4 1 0]))) example_world))"
proof -
  have distinct: "getFront (water example_world) \<noteq> getBack (water example_world)"
    by (simp add: example_defs getFront_def getBack_def)
  have front: "getFront (water example_world) = \<lparr> rt_framebuffer = 1, rt_texture = 1 \<rparr>"
    and rear: "getBack (water example_world) = \<lparr> rt_framebuffer = 2, rt_texture = 2 \<rparr>"
    by (simp_all add: example_defs getFront_def getBack_def)
  note swap = propagate_swaps_buffer_roles[OF distinct, of 0 example_mesh]
  from swap have cut: "getFront (water (run (take 25 (concat (map statements
          [Propagate 0 example_mesh, Render 7 example_mesh 4 4 1 0]))) example_world))
     \<noteq> getBack (water (run (take 25 (concat (map statements
          [Propagate 0 example_mesh, Render 7 example_mesh 4 4 1 0]))) example_world))"
    by blast
  from swap have "getBack (water (propagate 0 example_mesh example_world)) = getFront (water example_world)"
    and "getFront (water (propagate 0 example_mesh example_world)) = getBack (water example_world)"
    by blast+
  with distinct front rear cut show ?thesis
    by metis
qed

subsection \<open>The order of the calls in propagate\<close>

text \<open>
  Claim C6, as the code has it. \<^verbatim>\<open>propagate\<close> makes its twenty calls in the order listed:
  \<^verbatim>\<open>flip()\<close> is the second call, before the draw. Just before the draw call (after the first
  sixteen statements) the roles are already the swapped ones, the render target is the
  framebuffer of the current front buffer, and texture unit 0, which the sampler \<^verbatim>\<open>source\<close>
  reads, holds the texture of the current back buffer; the draw is the seventeenth
  statement and no later statement changes the roles.
\<close>

theorem propagate_binds_then_draws:
  fixes s :: world and wavePainter :: nat and m :: mesh
  defines "d \<equiv> run (take 16 (propagate_steps wavePainter m)) s"
  shows "calls (propagate wavePainter m s) = calls s @
          [ShaderUse ProgramPropagate, WaterFlip,
           RenderTargetTarget (rt_framebuffer (getBack (water s))),
           GlClearColor, GlClear, GlUniform ProgramPropagate USize,
           GlUniform ProgramPropagate UScale, GlUniform ProgramPropagate UDamping,
           GlBindBuffer ARRAY_BUFFER, GlBindBuffer ELEMENT_ARRAY_BUFFER,
           GlEnableVertexAttribArray, GlVertexAttribPointer, GlActiveTexture 0,
           GlBindTexture (rt_texture (getFront (water s))),
           GlTexParameteri TEXTURE_MIN_FILTER NEAREST, GlTexParameteri TEXTURE_MAG_FILTER NEAREST,
           GlDrawElements,
           GlTexParameteri TEXTURE_MIN_FILTER LINEAR, GlTexParameteri TEXTURE_MAG_FILTER LINEAR,
           ApplyInfluences]
       \<and> water d = flip (water s)
       \<and> framebuffer_binding d = rt_framebuffer (getFront (water d))
       \<and> texture_binding d 0 = Some (rt_texture (getBack (water d)))
       \<and> sampled_units ProgramPropagate d = [0]
       \<and> propagate wavePainter m s =
           run (drop 17 (propagate_steps wavePainter m)) (gl_drawElements (indexCount m) d)
       \<and> water (propagate wavePainter m s) = water d"
proof -
  note at = propagate_at_draw[of wavePainter m s, folded d_def]
  have "sampled_units ProgramPropagate d = [0]"
    by (simp add: sampled_units_def)
  moreover have "propagate wavePainter m s =
      run (drop 17 (propagate_steps wavePainter m)) (gl_drawElements (indexCount m) d)"
    unfolding d_def by (rule propagate_split)
  ultimately show ?thesis
    using at(1,2,3,6) propagate_calls[of wavePainter m s] by blast
qed

text \<open>
  Claim C6 as stated fails: \<^verbatim>\<open>flip()\<close> is not invoked after the propagation draw. In the
  calls of one \<^verbatim>\<open>propagate\<close> from the concrete world, the flip is the second call and the
  draw the seventeenth; no draw precedes the flip and no flip follows the draw.
\<close>

theorem propagate_flip_after_draw_counterexample:
  "calls (propagate 0 example_mesh example_world) ! 1 = WaterFlip
   \<and> calls (propagate 0 example_mesh example_world) ! 16 = GlDrawElements
   \<and> GlDrawElements \<notin> set (take 2 (calls (propagate 0 example_mesh example_world)))
   \<and> WaterFlip \<notin> set (drop 17 (calls (propagate 0 example_mesh example_world)))"
  by (simp add: propagate_calls example_defs)

subsection \<open>render changes no simulation state\<close>

text \<open>
  Claim C9. A call of \<^verbatim>\<open>render\<close> leaves the water plane (and so the roles of its buffers)
  as it was and rasterises nothing into the texture of the front buffer or of the back
  buffer. The only thing it rasterises into is the render target bound when it is called:
  a texture changes only if it is attached to the bound framebuffer, a framebuffer's own
  surface only if it is the bound framebuffer, and the binding itself is kept. (When a
  height-field buffer is the bound render target, as \<^verbatim>\<open>propagate\<close> leaves it, the draw of
  \<^verbatim>\<open>render\<close> samples the texture it would write and is refused.)
\<close>

theorem render_mutates_no_simulation_state:
  fixes s :: world and background :: nat and m :: mesh and width' height' scale time :: real
  defines "s' \<equiv> render background m width' height' scale time s"
  shows "water s' = water s
       \<and> pixels s' (rt_texture (getFront (water s))) = pixels s (rt_texture (getFront (water s)))
       \<and> pixels s' (rt_texture (getBack (water s))) = pixels s (rt_texture (getBack (water s)))
       \<and> (\<forall>t. pixels s' t \<noteq> pixels s t \<longrightarrow> color_attachment s (framebuffer_binding s) = Some t)
       \<and> (\<forall>f. surface s' f \<noteq> surface s f \<longrightarrow>
              f = framebuffer_binding s \<and> color_attachment s f = None)
       \<and> framebuffer_binding s' = framebuffer_binding s"
proof -
  define d where "d = run (take 19 (render_steps background m width' height' scale time)) s"
  have s': "s' = gl_drawElements (indexCount m) d"
    by (simp add: s'_def d_def render_split)
  note at = render_at_draw[of background m width' height' scale time s, folded d_def]
  have written: "color_attachment s (framebuffer_binding s) = Some t \<and>
      t \<noteq> rt_texture (getFront (water s)) \<and> t \<noteq> rt_texture (getBack (water s))"
    if "pixels s' t \<noteq> pixels s t" for t
  proof -
    from that have changed: "pixels (gl_drawElements (indexCount m) d) t \<noteq> pixels d t"
      by (simp add: s' at)
    from draw_pixels[OF changed] obtain p where
      att: "color_attachment d (framebuffer_binding d) = Some t" and
      p: "current_program d = Some p" and
      unread: "Some t \<notin> set (map (texture_binding d) (sampled_units p d))"
      by blast
    from p have "p = ProgramDistort" by (simp add: at)
    then have "map (texture_binding d) (sampled_units p d) =
        [Some background, Some (rt_texture (getBack (water s))), Some (rt_texture (getFront (water s)))]"
      by (simp only: at(7))
    with unread have "Some t \<notin> set [Some background, Some (rt_texture (getBack (water s))),
        Some (rt_texture (getFront (water s)))]"
      by metis
    with att show ?thesis by (simp add: at)
  qed
  have "water s' = water s"
    by (simp add: s' water_steps at)
  moreover have "pixels s' (rt_texture (getFront (water s))) = pixels s (rt_texture (getFront (water s)))"
    using written by blast
  moreover have "pixels s' (rt_texture (getBack (water s))) = pixels s (rt_texture (getBack (water s)))"
    using written by blast
  moreover have "f = framebuffer_binding s \<and> color_attachment s f = None"
    if "surface s' f \<noteq> surface s f" for f
    using draw_surface[of "indexCount m" d f] that by (auto simp: s' at)
  moreover have "framebuffer_binding s' = framebuffer_binding s"
    by (simp add: s' framebuffer_steps at)
  ultimately show ?thesis using written by blast
qed

theorem render_mutates_no_simulation_state_witness:
  "water (render 7 example_mesh 4 4 1 0 example_world) = example_water
   \<and> pixels (render 7 example_mesh 4 4 1 0 example_world) 1 = []
   \<and> pixels (render 7 example_mesh 4 4 1 0 example_world) 2 = []
   \<and> surface (render 7 example_mesh 4 4 1 0 example_world) 0 \<noteq> surface example_world 0
   \<and> framebuffer_binding example_world = 0 \<and> color_attachment example_world 0 = None
   \<and> pixels (render 7 example_mesh 4 4 1 0 (example_world\<lparr>framebuffer_binding := 3\<rparr>)) 3
       \<noteq> pixels (example_world\<lparr>framebuffer_binding := 3\<rparr>) 3
   \<and> color_attachment (example_world\<lparr>framebuffer_binding := 3\<rparr>)
        (framebuffer_binding (example_world\<lparr>framebuffer_binding := 3\<rparr>)) = Some 3
   \<and> framebuffer_binding (propagate 0 example_mesh example_world) = 2
   \<and> color_attachment (propagate 0 example_mesh example_world) 2 = Some 2
   \<and> pixels (render 7 example_mesh 4 4 1 0 (propagate 0 example_mesh example_world)) 2
       = pixels (propagate 0 example_mesh example_world) 2"
proof -
  let ?host = "example_world\<lparr>framebuffer_binding := 3\<rparr>"
  have drawn: "surface (render 7 example_mesh 4 4 1 0 example_world) 0 \<noteq> surface example_world 0"
    using render_draws_surface[of example_world 7 example_mesh 4 4 1 0]
    by (simp add: example_facts)
  have drawn3: "pixels (render 7 example_mesh 4 4 1 0 ?host) 3 \<noteq> pixels ?host 3"
    using render_draws_texture[of ?host 3 7 example_mesh 4 4 1 0]
    by (simp add: example_facts)
  note screen = render_mutates_no_simulation_state[of 7 example_mesh 4 4 1 0 example_world]
  note host = render_mutates_no_simulation_state[of 7 example_mesh 4 4 1 0 ?host]
  from screen have "water (render 7 example_mesh 4 4 1 0 example_world) = example_water"
    and "pixels (render 7 example_mesh 4 4 1 0 example_world) 1 = []"
    and "pixels (render 7 example_mesh 4 4 1 0 example_world) 2 = []"
    by (simp_all add: example_facts)
  moreover from screen drawn
  have "framebuffer_binding example_world = 0 \<and> color_attachment example_world 0 = None"
    by (simp add: example_facts)
  moreover from host drawn3
  have "color_attachment ?host (framebuffer_binding ?host) = Some 3"
    by blast
  moreover have "framebuffer_binding (propagate 0 example_mesh example_world) = 2"
    and "color_attachment (propagate 0 example_mesh example_world) 2 = Some 2"
    by (simp_all add: propagate_leaves_bound example_facts)
  moreover from render_mutates_no_simulation_state[of 7 example_mesh 4 4 1 0
      "propagate 0 example_mesh example_world"]
  have "pixels (render 7 example_mesh 4 4 1 0 (propagate 0 example_mesh example_world)) 2
       = pixels (propagate 0 example_mesh example_world) 2"
    by (simp add: water_propagate flip_roles example_facts)
  ultimately show ?thesis using drawn drawn3 by blast
qed

subsection \<open>The distortion shader\<close>

text \<open>The two tangents and the light direction, normalised, and the normal they give.\<close>

lemma normalize_tangents:
  "normalize (Vec3 2 a 0) = Vec3 (2 / sqrt (4 + a\<^sup>2)) (a / sqrt (4 + a\<^sup>2)) 0"
  "normalize (Vec3 0 b 2) = Vec3 0 (b / sqrt (4 + b\<^sup>2)) (2 / sqrt (4 + b\<^sup>2))"
  "normalize (Vec3 1 0 1) = Vec3 (1 / sqrt 2) 0 (1 / sqrt 2)"
  by (simp_all add: normalize_def dot_def Let_def power2_eq_square add.commute)

lemma surface_normal:
  "cross (normalize (Vec3 2 a 0)) (normalize (Vec3 0 b 2)) =
     Vec3 (2 * a / (sqrt (4 + a\<^sup>2) * sqrt (4 + b\<^sup>2)))
          (- 4 / (sqrt (4 + a\<^sup>2) * sqrt (4 + b\<^sup>2)))
          (2 * b / (sqrt (4 + a\<^sup>2) * sqrt (4 + b\<^sup>2)))"
  by (simp add: normalize_tangents cross_def)

lemma flat_normal:
  "cross (normalize (Vec3 2 0 0)) (normalize (Vec3 0 0 2)) = Vec3 0 (- 1) 0"
  by (simp add: surface_normal)

text \<open>
  Claim C4. When both height-field samplers return the neutral red value 0.5 everywhere,
  the normal stands for \<open>(0, 1, 0)\<close> in everything the shader takes from it: its x and z
  components, which make the displacement, are those of \<open>(0, 1, 0)\<close>, and its product with
  the light direction, which makes the shading term, is that of \<open>(0, 1, 0)\<close>, namely 0 (the
  normal itself is \<open>(0, -1, 0)\<close>, the cross product being taken in this order). The
  displacement is the zero vector, the background is sampled at the unshifted
  \<^verbatim>\<open>gl_FragCoord.xy / size\<close>, and the output is \<open>filter\<close> times the background pixel: the
  sample, or opaque white when the sample's alpha is 0, as in every other case.
\<close>

theorem distort_flat_field:
  fixes background waterBack waterFront :: sampler2D and depth time :: real
    and size' waterSize fragCoord :: vec2
  assumes "\<forall>uv. red (waterBack uv) = 1 / 2" and "\<forall>uv. red (waterFront uv) = 1 / 2"
  defines "L \<equiv> distort_main background waterBack waterFront depth size' waterSize time fragCoord"
  defines "s \<equiv> background (Vec2 (vx fragCoord / vx size') (vy fragCoord / vy size'))"
  shows "xz (normal L) = xz (Vec3 0 1 0)
       \<and> shiny_dot L = dot (normalize (Vec3 1 0 1)) (Vec3 0 1 0)
       \<and> shiny L = 0
       \<and> normal L = Vec3 0 (- 1) 0
       \<and> displacement L = Vec2 0 0
       \<and> sampled L = s
       \<and> distort_fragment background waterBack waterFront depth size' waterSize time fragCoord
           = vec4_mul filter_colour (if alpha s = 0 then Vec4 1 1 1 1 else s)
       \<and> (alpha s \<noteq> 0 \<longrightarrow>
           distort_fragment background waterBack waterFront depth size' waterSize time fragCoord
             = vec4_mul filter_colour s)"
  unfolding L_def s_def
  by (simp add: distort_fragment_def distort_main_def get_flat[OF assms(1,2)] glsl_defs
      filter_colour_def Let_def)

theorem distort_flat_field_witness:
  "(\<forall>uv. red (Vec4 (1 / 2) (1 / 2) 0 0) = 1 / 2)
   \<and> alpha (Vec4 (3 / 8) (5 / 8) 0 1) \<noteq> 0
   \<and> displacement (distort_main (\<lambda>uv. Vec4 (vx uv) (vy uv) 0 1) (\<lambda>uv. Vec4 (1 / 2) (1 / 2) 0 0)
        (\<lambda>uv. Vec4 (1 / 2) (1 / 2) 0 0) (1 / 10) (Vec2 4 4) (Vec2 4 4) (1 / 3) (Vec2 (3 / 2) (5 / 2)))
      = Vec2 0 0
   \<and> distort_fragment (\<lambda>uv. Vec4 (vx uv) (vy uv) 0 1) (\<lambda>uv. Vec4 (1 / 2) (1 / 2) 0 0)
        (\<lambda>uv. Vec4 (1 / 2) (1 / 2) 0 0) (1 / 10) (Vec2 4 4) (Vec2 4 4) (1 / 3) (Vec2 (3 / 2) (5 / 2))
      = Vec4 (0.93 * 0.92 * (3 / 8)) (0.98 * 0.97 * (5 / 8)) 0 1"
proof -
  have flat: "\<forall>uv. red ((\<lambda>uv. Vec4 (1 / 2) (1 / 2) 0 0) uv) = 1 / 2"
    by simp
  from distort_flat_field[OF flat flat, where background = "\<lambda>uv. Vec4 (vx uv) (vy uv) 0 1"
      and fragCoord = "Vec2 (3 / 2) (5 / 2)" and size' = "Vec2 4 4" and depth = "1 / 10"
      and waterSize = "Vec2 4 4" and time = "1 / 3"]
  show ?thesis
    by (simp add: filter_colour_def vec4_mul_def)
qed

text \<open>
  Claim C5. Let \<open>n\<close> be the normal the shader computes from its four reads of the height
  field through \<^verbatim>\<open>get\<close>, and \<open>t = dot(normalize((1,0,1)), n)\<close> the shading term. The output
  of the shader is the linear blend \<open>mix\<close> of \<open>filter * p\<close> and the sky colour
  \<open>(0.88, 0.96, 1, 1)\<close>, where \<open>p\<close> is the background pixel and the blend factor is \<open>t\<close>
  multiplied by 0.5 when \<open>t\<close> is negative, by 1.5 when \<open>t\<close> exceeds 0.5, and \<open>t\<close> itself
  otherwise. Component by component the blend is \<open>x * (1 - a) + y * a\<close>.
\<close>

theorem distort_shiny_rule:
  fixes background waterBack waterFront :: sampler2D and depth time :: real
    and size' waterSize fragCoord :: vec2
  defines "h \<equiv> get waterBack waterFront size' waterSize time fragCoord"
  defines "dyx \<equiv> h (Vec2 1 0) - h (Vec2 (- 1) 0)" and "dyz \<equiv> h (Vec2 0 1) - h (Vec2 0 (- 1))"
  defines "n \<equiv> cross (normalize (Vec3 2 dyx 0)) (normalize (Vec3 0 dyz 2))"
  defines "t \<equiv> dot (normalize (Vec3 1 0 1)) n"
  defines "a \<equiv> (if t < 0 then t * 0.5 else if t > 0.5 then t * 1.5 else t)"
  defines "sample \<equiv> background (Vec2 (vx fragCoord / vx size' - depth * v3x n / vx size')
                                      (vy fragCoord / vy size' - depth * v3z n / vy size'))"
  defines "p \<equiv> (if alpha sample = 0 then Vec4 1 1 1 1 else sample)"
  shows "distort_fragment background waterBack waterFront depth size' waterSize time fragCoord
           = mix4 (vec4_mul filter_colour p) sky_colour a
       \<and> distort_fragment background waterBack waterFront depth size' waterSize time fragCoord
           = Vec4 (0.93 * 0.92 * red p * (1 - a) + 0.88 * a)
                  (0.98 * 0.97 * green p * (1 - a) + 0.96 * a)
                  (blue p * (1 - a) + a)
                  (alpha p * (1 - a) + a)
       \<and> t = (2 * dyx + 2 * dyz) / (sqrt 2 * (sqrt (4 + dyx\<^sup>2) * sqrt (4 + dyz\<^sup>2)))"
proof -
  have out: "distort_fragment background waterBack waterFront depth size' waterSize time fragCoord
      = mix4 (vec4_mul filter_colour p) sky_colour a"
    unfolding p_def sample_def a_def t_def n_def dyx_def dyz_def h_def
    by (simp add: distort_fragment_def distort_main_def filter_colour_def sky_colour_def
        Let_def vec4_mul_def vec4_all_def texture2D_def vec2_sub_def vec2_div_def vec2_scale_def
        xz_def)
  have blend: "mix4 (vec4_mul filter_colour p) sky_colour a
      = Vec4 (0.93 * 0.92 * red p * (1 - a) + 0.88 * a)
             (0.98 * 0.97 * green p * (1 - a) + 0.96 * a)
             (blue p * (1 - a) + a)
             (alpha p * (1 - a) + a)"
    by (simp add: mix4_def mix_def vec4_mul_def filter_colour_def sky_colour_def)
  have dotted: "t = (2 * dyx + 2 * dyz) / (sqrt 2 * (sqrt (4 + dyx\<^sup>2) * sqrt (4 + dyz\<^sup>2)))"
    unfolding t_def n_def
    by (simp only: surface_normal normalize_tangents(3))
       (simp add: dot_def add_divide_distrib mult.commute)
  show ?thesis
    using out blend dotted by simp
qed

text \<open>
  Claim C7. With \<open>n\<close> the normal computed from the height field, the displacement is
  \<open>depth * n.xz / size\<close>, and the background is sampled at \<^verbatim>\<open>gl_FragCoord.xy / size\<close> minus
  that displacement. When the sample has alpha exactly 0 the pixel that enters the blend is
  opaque white \<open>(1, 1, 1, 1)\<close>, the sample itself otherwise: the output is the blend of
  \<open>filter * (1, 1, 1, 1)\<close> with the sky colour in the first case, of \<open>filter * sample\<close> with
  the sky colour in the second.
\<close>

theorem distort_background_sample:
  fixes background waterBack waterFront :: sampler2D and depth time :: real
    and size' waterSize fragCoord :: vec2
  defines "L \<equiv> distort_main background waterBack waterFront depth size' waterSize time fragCoord"
  defines "h \<equiv> get waterBack waterFront size' waterSize time fragCoord"
  defines "n \<equiv> cross (normalize (Vec3 2 (h (Vec2 1 0) - h (Vec2 (- 1) 0)) 0))
                      (normalize (Vec3 0 (h (Vec2 0 1) - h (Vec2 0 (- 1))) 2))"
  defines "t \<equiv> dot (normalize (Vec3 1 0 1)) n"
  defines "a \<equiv> (if t < 0 then t * 0.5 else if t > 0.5 then t * 1.5 else t)"
  defines "d \<equiv> Vec2 (depth * v3x n / vx size') (depth * v3z n / vy size')"
  defines "sample \<equiv> background (Vec2 (vx fragCoord / vx size' - vx d) (vy fragCoord / vy size' - vy d))"
  shows "displacement L = d
       \<and> sampled L = sample
       \<and> pixel L = (if alpha sample = 0 then Vec4 1 1 1 1 else sample)
       \<and> distort_fragment background waterBack waterFront depth size' waterSize time fragCoord
           = (if alpha sample = 0 then mix4 (vec4_mul filter_colour (Vec4 1 1 1 1)) sky_colour a
              else mix4 (vec4_mul filter_colour sample) sky_colour a)"
  unfolding L_def sample_def d_def a_def t_def n_def h_def
  by (simp add: distort_fragment_def distort_main_def filter_colour_def sky_colour_def
      Let_def vec4_mul_def vec4_all_def texture2D_def vec2_sub_def vec2_div_def vec2_scale_def
      xz_def)

subsection \<open>The height mapping\<close>

text \<open>
  Claim C8, as the code has it. \<open>decode(encode(h)) = h\<close> for every height, with
  \<open>encode(h) = h/6 + 0.5\<close> and \<open>decode(v) = v*6 - 3\<close>. The shading read \<^verbatim>\<open>get\<close> applies
  \<open>decode\<close> to the blend of the two stored red channels. The propagation write does not
  apply \<open>encode\<close> to the value \<open>w = (newHeight - momentum) * damping\<close> it computes: it stores
  \<open>w * 0.5 + 0.5\<close>, which is \<open>encode(3 * w)\<close>, so the shading stage reads \<open>3 * w\<close> back.
\<close>

theorem height_mapping_between_shaders:
  fixes source waterBack waterFront :: sampler2D and size' waterSize fragCoord delta :: vec2
    and damping time h :: real
  defines "u \<equiv> vx fragCoord / vx size'" and "v \<equiv> vy fragCoord / vy size'"
  defines "w \<equiv> ((red (source (Vec2 (u - 1 / vx size') v)) + red (source (Vec2 u (v - 1 / vy size')))
                 + red (source (Vec2 (u + 1 / vx size') v)) + red (source (Vec2 u (v + 1 / vy size')))
                 - 2)
                - ((green (source (Vec2 u v)) + blue (source (Vec2 u v))) * 2 - 1)) * damping"
  defines "uv \<equiv> Vec2 (u + vx delta / vx waterSize) (v + vy delta / vy waterSize)"
  shows "spec_decode (spec_encode h) = h
       \<and> get waterBack waterFront size' waterSize time fragCoord delta
           = spec_decode (mix (red (waterBack uv)) (red (waterFront uv)) time)
       \<and> red (propagate_fragment source size' damping fragCoord) = w * 0.5 + 0.5
       \<and> red (propagate_fragment source size' damping fragCoord) = spec_encode (3 * w)
       \<and> spec_decode (red (propagate_fragment source size' damping fragCoord)) = 3 * w"
proof -
  have roundtrip: "spec_decode (spec_encode x) = x" for x
    by (simp add: spec_decode_def spec_encode_def)
  have halves: "spec_encode (3 * x) = x * 0.5 + 0.5" for x
    by (simp add: spec_encode_def)
  have stored: "red (propagate_fragment source size' damping fragCoord) = w * 0.5 + 0.5"
    unfolding w_def u_def v_def
    by (simp add: propagate_fragment_def texture2D_def vec2_div_def rgb_def Let_def)
  have "get waterBack waterFront size' waterSize time fragCoord delta
          = spec_decode (mix (red (waterBack uv)) (red (waterFront uv)) time)"
    unfolding uv_def u_def v_def
    by (simp add: get_def spec_decode_def texture2D_def vec2_add_def vec2_div_def Let_def)
  moreover have "red (propagate_fragment source size' damping fragCoord) = spec_encode (3 * w)"
    by (simp only: stored halves)
  moreover have "spec_decode (red (propagate_fragment source size' damping fragCoord)) = 3 * w"
    by (simp only: stored halves[symmetric] roundtrip)
  ultimately show ?thesis
    using roundtrip stored by blast
qed

text \<open>
  Claim C8 as stated fails in its second part. Over a source whose every texel is
  \<open>(0.75, 0.5, 0, 0)\<close> the propagation computes \<open>(4 * 0.75 - 2 - 0) * 0.995 = 0.995\<close> and
  stores the red value 0.9975. That is not \<open>encode(0.995)\<close>, and \<open>decode\<close> of it, which the
  shading stage reads, is 2.985 and not 0.995.
\<close>

theorem height_mapping_counterexample:
  "red (propagate_fragment (\<lambda>uv. Vec4 (3 / 4) (1 / 2) 0 0) (Vec2 4 4) DAMPING (Vec2 (1 / 2) (1 / 2)))
     = 0.9975
   \<and> spec_encode 0.995 \<noteq> 0.9975
   \<and> spec_decode 0.9975 = 2.985
   \<and> get (\<lambda>uv. Vec4 0.9975 (3 / 4) 0 0) (\<lambda>uv. Vec4 0.9975 (3 / 4) 0 0) (Vec2 4 4) (Vec2 4 4) 0
        (Vec2 (1 / 2) (1 / 2)) (Vec2 1 0) = 2.985"
  by (simp add: propagate_fragment_def DAMPING_def spec_encode_def spec_decode_def get_def
      texture2D_def vec2_add_def vec2_div_def rgb_def mix_def Let_def)

subsection \<open>The koi card\<close>

lemma initialize_sets_flag: "initialized (initialize a c)"
  by (simp add: initialize_def setName_def called_def Let_def)

lemma step_keeps_flag:
  assumes "initialized c" and "op \<noteq> Free"
  shows "initialized (card_step op c)"
  using assms
  by (cases op) (simp_all add: card_step_def initialize_def setName_def blob_ready_def)

lemma run_keeps_flag:
  "initialized c \<Longrightarrow> Free \<notin> set ops \<Longrightarrow> initialized (card_run ops c)"
proof (induction ops arbitrary: c)
  case Nil
  then show ?case by (simp add: card_run_def)
next
  case (Cons op ops)
  from Cons.prems have "initialized (card_step op c)"
    by (intro step_keeps_flag) auto
  with Cons show ?case by (simp add: card_run_def)
qed

text \<open>
  Claim C10, as the code has it. On a card whose \<^verbatim>\<open>initialized\<close> flag is set, a call of
  \<^verbatim>\<open>initialize\<close> with any arguments returns the card state as it is: no call on the atlas or
  the preview renderer is made and no name element is appended. The flag is set by the
  first \<^verbatim>\<open>initialize\<close> and stays set through every later operation on the card other than
  \<^verbatim>\<open>free\<close>, so every later \<^verbatim>\<open>initialize\<close> is such a call as long as \<^verbatim>\<open>free\<close> has not been
  called in between.
\<close>

theorem initialize_returns_while_initialized:
  fixes c :: "'a card_scheme"
  shows "(initialized c \<longrightarrow> initialize a c = c)
       \<and> (Free \<notin> set ops \<longrightarrow>
            initialize a (card_run ops (initialize a0 c)) = card_run ops (initialize a0 c))"
proof -
  have guard: "initialize a' c' = c'" if "initialized c'" for a' and c' :: "'a card_scheme"
    using that by (simp add: initialize_def)
  show ?thesis
    using guard run_keeps_flag[OF initialize_sets_flag] by blast
qed

theorem initialize_returns_while_initialized_witness:
  "initialized (initialize example_args new_card)
   \<and> initialize \<lparr> atlas_region = Some 9, made_name = ''Showa'' \<rparr> (initialize example_args new_card)
       = initialize example_args new_card
   \<and> Free \<notin> set [BlobReady ''blob:1'', Other (\<lambda>u::unit. u)]
   \<and> initialize \<lparr> atlas_region = Some 9, made_name = ''Showa'' \<rparr>
        (card_run [BlobReady ''blob:1'', Other (\<lambda>u::unit. u)] (initialize example_args new_card))
       = card_run [BlobReady ''blob:1'', Other (\<lambda>u::unit. u)] (initialize example_args new_card)
   \<and> name_children (card_run [BlobReady ''blob:1'', Other (\<lambda>u::unit. u)] (initialize example_args new_card))
       = [''Kohaku'']"
proof -
  have flag: "initialized (initialize example_args new_card)"
    by (rule initialize_sets_flag)
  have ops: "Free \<notin> set [BlobReady ''blob:1'', Other (\<lambda>u::unit. u)]"
    by simp
  have names: "name_children (card_run [BlobReady ''blob:1'', Other (\<lambda>u::unit. u)]
      (initialize example_args new_card)) = [''Kohaku'']"
    by (simp add: card_run_def card_step_def blob_ready_def initialize_def setName_def called_def
        new_card_def example_args_def Let_def)
  note thm1 = initialize_returns_while_initialized[of "initialize example_args new_card"
      "\<lparr> atlas_region = Some 9, made_name = ''Showa'' \<rparr>" "[]" example_args]
  note thm2 = initialize_returns_while_initialized[of new_card
      "\<lparr> atlas_region = Some 9, made_name = ''Showa'' \<rparr>"
      "[BlobReady ''blob:1'', Other (\<lambda>u::unit. u)]" example_args]
  from thm1 flag have "initialize \<lparr> atlas_region = Some 9, made_name = ''Showa'' \<rparr>
      (initialize example_args new_card) = initialize example_args new_card"
    by blast
  moreover from thm2 ops have "initialize \<lparr> atlas_region = Some 9, made_name = ''Showa'' \<rparr>
        (card_run [BlobReady ''blob:1'', Other (\<lambda>u::unit. u)] (initialize example_args new_card))
       = card_run [BlobReady ''blob:1'', Other (\<lambda>u::unit. u)] (initialize example_args new_card)"
    by blast
  ultimately show ?thesis using flag ops names by blast
qed

text \<open>
  Claim C10 as stated fails: \<^verbatim>\<open>free\<close> clears the flag, and an \<^verbatim>\<open>initialize\<close> that follows it
  on a card already initialised once does not return immediately. It writes the atlas and
  renders the preview again and appends a second name element.
\<close>

theorem initialize_after_free_counterexample:
  "initialize example_args (free (initialize example_args new_card))
     \<noteq> free (initialize example_args new_card)
   \<and> name_children (free (initialize example_args new_card)) = [''Kohaku'']
   \<and> name_children (initialize example_args (free (initialize example_args new_card)))
       = [''Kohaku'', ''Kohaku'']
   \<and> card_calls (initialize example_args (free (initialize example_args new_card)))
       = [InitializeSpine, AtlasWrite, PreviewRender, ToBlob, AtlasReturnRegion (Some 5), MakeName,
          InitializeSpine, AtlasWrite, PreviewRender, ToBlob, AtlasReturnRegion (Some 5), MakeName]"
proof -
  have once: "free (initialize example_args new_card) =
      \<lparr> initialized = False, previewURL = None, backgroundImage = None,
        name_children = [''Kohaku''], region = None,
        card_calls = [InitializeSpine, AtlasWrite, PreviewRender, ToBlob,
                      AtlasReturnRegion (Some 5), MakeName] \<rparr>"
    by (simp add: free_def initialize_def setName_def called_def new_card_def example_args_def Let_def)
  have twice: "initialize example_args
      \<lparr> initialized = False, previewURL = None, backgroundImage = None,
        name_children = [''Kohaku''], region = None,
        card_calls = [InitializeSpine, AtlasWrite, PreviewRender, ToBlob,
                      AtlasReturnRegion (Some 5), MakeName] \<rparr> =
      \<lparr> initialized = True, previewURL = None, backgroundImage = None,
        name_children = [''Kohaku'', ''Kohaku''], region = None,
        card_calls = [InitializeSpine, AtlasWrite, PreviewRender, ToBlob,
                      AtlasReturnRegion (Some 5), MakeName,
                      InitializeSpine, AtlasWrite, PreviewRender, ToBlob,
                      AtlasReturnRegion (Some 5), MakeName] \<rparr>"
    by (simp add: initialize_def setName_def called_def example_args_def Let_def)
  show ?thesis
    unfolding once twice by simp
qed

subsection \<open>The height field under repeated propagation\<close>

lemma wrap_index_inside: "i < n \<Longrightarrow> wrap_index w n (int i) = i"
  by (cases w) (auto simp: wrap_index_def Let_def)

lemma wrap_index_less: "0 < n \<Longrightarrow> wrap_index w n i < n"
  by (cases w) (auto simp: wrap_index_def Let_def nat_less_iff pos_mod_bound pos_mod_sign min_def max_def 
    simp flip: of_nat_less_iff)

lemma floor_centre:
  assumes "0 < n"
  shows "\<lfloor>((real x + 1 / 2) / real n) * real n\<rfloor> = int x"
    "\<lfloor>((real x + 1 / 2) / real n - 1 / real n) * real n\<rfloor> = int x - 1"
    "\<lfloor>((real x + 1 / 2) / real n + 1 / real n) * real n\<rfloor> = int x + 1"
proof -
  have a: "((real x + 1 / 2) / real n) * real n = real x + 1 / 2"
    and b: "((real x + 1 / 2) / real n - 1 / real n) * real n = real x - 1 / 2"
    and c: "((real x + 1 / 2) / real n + 1 / real n) * real n = real x + 3 / 2"
    using assms by (simp_all add: field_simps)
  show "\<lfloor>((real x + 1 / 2) / real n) * real n\<rfloor> = int x"
    unfolding a by (rule floor_unique) simp_all
  show "\<lfloor>((real x + 1 / 2) / real n - 1 / real n) * real n\<rfloor> = int x - 1"
    unfolding b by (rule floor_unique) simp_all
  show "\<lfloor>((real x + 1 / 2) / real n + 1 / real n) * real n\<rfloor> = int x + 1"
    unfolding c by (rule floor_unique) simp_all
qed


lemma wrap_left:
  assumes "i < n"
  shows "wrap_index w n (int i - 1) = (if w = REPEAT then (i + (n - 1)) mod n else i - 1)"
proof (cases w)
  case CLAMP_TO_EDGE
  with assms show ?thesis by (auto simp: wrap_index_def)
next
  case REPEAT
  have "(int i - 1) mod int n = (int i - 1 + int n) mod int n"
    by simp
  also have "int i - 1 + int n = int (i + (n - 1))"
    using assms by linarith
  also have "int (i + (n - 1)) mod int n = int ((i + (n - 1)) mod n)"
    by (simp only: zmod_int)
  finally show ?thesis using REPEAT by (simp add: wrap_index_def)
next
  case MIRRORED_REPEAT
  show ?thesis
  proof (cases "i = 0")
    case True
    have "(- 1) mod (2 * int n) = 2 * int n - 1"
      using assms by (simp add: zmod_minus1)
    with True MIRRORED_REPEAT assms show ?thesis
      by (simp add: wrap_index_def Let_def)
  next
    case False
    then have "(int i - 1) mod (2 * int n) = int i - 1"
      using assms by (intro mod_pos_pos_trivial) auto
    with False MIRRORED_REPEAT assms show ?thesis
      by (simp add: wrap_index_def Let_def nat_diff_distrib)
  qed
qed

lemma wrap_right:
  assumes "i < n"
  shows "wrap_index w n (int i + 1) = (if w = REPEAT then (i + 1) mod n else min (n - 1) (i + 1))"
proof (cases w)
  case CLAMP_TO_EDGE
  with assms show ?thesis by (auto simp: wrap_index_def min_def)
next
  case REPEAT
  have "int i + 1 = int (i + 1)"
    by simp
  then have "(int i + 1) mod int n = int ((i + 1) mod n)"
    by (simp only: zmod_int)
  with REPEAT show ?thesis by (simp add: wrap_index_def)
next
  case MIRRORED_REPEAT
  have "(int i + 1) mod (2 * int n) = int i + 1"
    using assms by (intro mod_pos_pos_trivial) auto
  with MIRRORED_REPEAT assms show ?thesis
    by (auto simp: wrap_index_def Let_def min_def)
qed

lemma clamp_symmetric:
  fixes f :: "nat \<Rightarrow> nat \<Rightarrow> real"
  shows "(\<Sum>i<Suc k. f i (i - 1) + f i (min k (i + 1)))
       = (\<Sum>i<Suc k. f (i - 1) i + f (min k (i + 1)) i)"
proof -
  have l: "(\<Sum>i<Suc k. f i (i - 1)) = f 0 0 + (\<Sum>i<k. f (Suc i) i)"
    by (subst sum.lessThan_Suc_shift) simp
  have r: "(\<Sum>i<Suc k. f i (min k (i + 1))) = (\<Sum>i<k. f i (Suc i)) + f k k"
    by simp
  have l': "(\<Sum>i<Suc k. f (i - 1) i) = f 0 0 + (\<Sum>i<k. f i (Suc i))"
    by (subst sum.lessThan_Suc_shift) simp
  have r': "(\<Sum>i<Suc k. f (min k (i + 1)) i) = (\<Sum>i<k. f (Suc i) i) + f k k"
    by simp
  show ?thesis
    by (simp only: sum.distrib l r l' r')
qed

lemma repeat_symmetric:
  fixes f :: "nat \<Rightarrow> nat \<Rightarrow> real"
  assumes "0 < n"
  shows "(\<Sum>i<n. f i ((i + (n - 1)) mod n) + f i ((i + 1) mod n))
       = (\<Sum>i<n. f ((i + (n - 1)) mod n) i + f ((i + 1) mod n) i)"
proof -
  have inv1: "((i + (n - 1)) mod n + 1) mod n = i" if "i < n" for i
    using that assms by (simp add: mod_simps)
  have inv2: "((i + 1) mod n + (n - 1)) mod n = i" if "i < n" for i
  proof -
    have "((i + 1) mod n + (n - 1)) mod n = ((i + 1) + (n - 1)) mod n"
      by (simp only: mod_add_left_eq)
    also have "(i + 1) + (n - 1) = i + n"
      using assms by simp
    finally show ?thesis using that by simp
  qed
  have a: "(\<Sum>i<n. f i ((i + (n - 1)) mod n)) = (\<Sum>i<n. f ((i + 1) mod n) i)"
    by (rule sum.reindex_bij_witness[where i = "\<lambda>i. (i + 1) mod n" and j = "\<lambda>i. (i + (n - 1)) mod n"])
       (use assms inv1 inv2 in auto)
  have b: "(\<Sum>i<n. f i ((i + 1) mod n)) = (\<Sum>i<n. f ((i + (n - 1)) mod n) i)"
    by (rule sum.reindex_bij_witness[where i = "\<lambda>i. (i + (n - 1)) mod n" and j = "\<lambda>i. (i + 1) mod n"])
       (use assms inv1 inv2 in auto)
  show ?thesis
    by (simp only: sum.distrib a b)
qed

lemma neighbours_symmetric:
  fixes f :: "nat \<Rightarrow> nat \<Rightarrow> real"
  assumes "0 < n"
  shows "(\<Sum>i<n. f i (wrap_index w n (int i - 1)) + f i (wrap_index w n (int i + 1)))
       = (\<Sum>i<n. f (wrap_index w n (int i - 1)) i + f (wrap_index w n (int i + 1)) i)"
proof (cases "w = REPEAT")
  case True
  then show ?thesis
    using repeat_symmetric[OF assms, of f] by (simp add: wrap_left wrap_right)
next
  case False
  obtain k where n: "n = Suc k" using assms by (cases n) auto
  from False show ?thesis
    using clamp_symmetric[of f k] by (simp add: wrap_left wrap_right n)
qed


lemma grid_symmetric:
  fixes a b :: "nat \<Rightarrow> nat \<Rightarrow> real"
  assumes "0 < nx" and "0 < ny"
  shows "(\<Sum>x<nx. \<Sum>y<ny. a x y * neighbour_sum ws wt nx ny b x y)
       = (\<Sum>x<nx. \<Sum>y<ny. b x y * neighbour_sum ws wt nx ny a x y)"
proof -
  have horizontal:
    "(\<Sum>x<nx. a x y * b (wrap_index ws nx (int x - 1)) y + a x y * b (wrap_index ws nx (int x + 1)) y)
   = (\<Sum>x<nx. a (wrap_index ws nx (int x - 1)) y * b x y + a (wrap_index ws nx (int x + 1)) y * b x y)"
    for y
    using neighbours_symmetric[OF assms(1), of "\<lambda>i j. a i y * b j y" ws] .
  have vertical:
    "(\<Sum>y<ny. a x y * b x (wrap_index wt ny (int y - 1)) + a x y * b x (wrap_index wt ny (int y + 1)))
   = (\<Sum>y<ny. a x (wrap_index wt ny (int y - 1)) * b x y + a x (wrap_index wt ny (int y + 1)) * b x y)"
    for x
    using neighbours_symmetric[OF assms(2), of "\<lambda>i j. a x i * b x j" wt] .
  have "(\<Sum>x<nx. \<Sum>y<ny. a x y * neighbour_sum ws wt nx ny b x y)
      = (\<Sum>y<ny. \<Sum>x<nx. a x y * b (wrap_index ws nx (int x - 1)) y
                             + a x y * b (wrap_index ws nx (int x + 1)) y)
      + (\<Sum>x<nx. \<Sum>y<ny. a x y * b x (wrap_index wt ny (int y - 1))
                             + a x y * b x (wrap_index wt ny (int y + 1)))"
    by (subst sum.swap) (simp add: neighbour_sum_def algebra_simps sum.distrib)
  also have "\<dots>
      = (\<Sum>y<ny. \<Sum>x<nx. a (wrap_index ws nx (int x - 1)) y * b x y
                             + a (wrap_index ws nx (int x + 1)) y * b x y)
      + (\<Sum>x<nx. \<Sum>y<ny. a x (wrap_index wt ny (int y - 1)) * b x y
                             + a x (wrap_index wt ny (int y + 1)) * b x y)"
    by (simp only: horizontal vertical)
  also have "\<dots> = (\<Sum>x<nx. \<Sum>y<ny. b x y * neighbour_sum ws wt nx ny a x y)"
    by (subst sum.swap) (simp add: neighbour_sum_def algebra_simps sum.distrib)
  finally show ?thesis .
qed

lemma grid_neighbour_total:
  fixes q :: "nat \<Rightarrow> nat \<Rightarrow> real"
  assumes "0 < nx" and "0 < ny"
  shows "(\<Sum>x<nx. \<Sum>y<ny. neighbour_sum ws wt nx ny q x y) = 4 * (\<Sum>x<nx. \<Sum>y<ny. q x y)"
proof -
  have "(\<Sum>x<nx. \<Sum>y<ny. neighbour_sum ws wt nx ny q x y)
      = (\<Sum>x<nx. \<Sum>y<ny. (\<lambda>x y. 1) x y * neighbour_sum ws wt nx ny q x y)"
    by simp
  also have "\<dots> = (\<Sum>x<nx. \<Sum>y<ny. q x y * neighbour_sum ws wt nx ny (\<lambda>x y. 1) x y)"
    by (rule grid_symmetric[OF assms(1,2)])
  also have "\<dots> = 4 * (\<Sum>x<nx. \<Sum>y<ny. q x y)"
    by (simp add: neighbour_sum_def sum_distrib_left mult.commute)
  finally show ?thesis .
qed

lemma four_products:
  fixes s :: real
  shows "s * t1 + s * t2 + s * t3 + s * t4 \<le> 2 * s\<^sup>2 + (t1\<^sup>2 + t2\<^sup>2 + t3\<^sup>2 + t4\<^sup>2) / 2"
proof -
  have "0 \<le> (s - t1)\<^sup>2 + (s - t2)\<^sup>2 + (s - t3)\<^sup>2 + (s - t4)\<^sup>2"
    by simp
  then show ?thesis
    by (simp add: power2_diff mult.assoc add_divide_distrib)
qed

lemma grid_bound:
  fixes a b :: "nat \<Rightarrow> nat \<Rightarrow> real"
  assumes "0 < nx" and "0 < ny"
  shows "(\<Sum>x<nx. \<Sum>y<ny. a x y * neighbour_sum ws wt nx ny b x y)
       \<le> 2 * (\<Sum>x<nx. \<Sum>y<ny. (a x y)\<^sup>2) + 2 * (\<Sum>x<nx. \<Sum>y<ny. (b x y)\<^sup>2)"
proof -
  have pointwise: "a x y * neighbour_sum ws wt nx ny b x y
      \<le> 2 * (a x y)\<^sup>2 + neighbour_sum ws wt nx ny (\<lambda>x y. (b x y)\<^sup>2) x y / 2" for x y
    unfolding neighbour_sum_def distrib_left by (rule four_products)
  have "(\<Sum>x<nx. \<Sum>y<ny. a x y * neighbour_sum ws wt nx ny b x y)
      \<le> (\<Sum>x<nx. \<Sum>y<ny. 2 * (a x y)\<^sup>2 + neighbour_sum ws wt nx ny (\<lambda>x y. (b x y)\<^sup>2) x y / 2)"
    by (intro sum_mono pointwise)
  also have "\<dots> = 2 * (\<Sum>x<nx. \<Sum>y<ny. (a x y)\<^sup>2)
      + (\<Sum>x<nx. \<Sum>y<ny. neighbour_sum ws wt nx ny (\<lambda>x y. (b x y)\<^sup>2) x y) / 2"
    by (simp add: sum.distrib sum_distrib_left sum_divide_distrib)
  also have "\<dots> = 2 * (\<Sum>x<nx. \<Sum>y<ny. (a x y)\<^sup>2) + 2 * (\<Sum>x<nx. \<Sum>y<ny. (b x y)\<^sup>2)"
    by (simp add: grid_neighbour_total[OF assms])
  finally show ?thesis .
qed


lemma step_cells:
  "cells_x (propagation_step ws wt d F) = cells_x F"
  "cells_y (propagation_step ws wt d F) = cells_y F"
  by (simp_all add: propagation_step_def)

lemma propagation_0: "propagation ws wt d 0 F = F"
  by (simp add: propagation_def)

lemma propagation_Suc:
  "propagation ws wt d (Suc n) F = propagation_step ws wt d (propagation ws wt d n F)"
  by (simp add: propagation_def)

lemma propagation_cells:
  "cells_x (propagation ws wt d n F) = cells_x F"
  "cells_y (propagation ws wt d n F) = cells_y F"
  by (induction n) (simp_all add: propagation_0 propagation_Suc step_cells)

lemma step_complete:
  "texture_complete ws wt (propagation_step ws wt d F) = texture_complete ws wt F"
  by (simp add: texture_complete_def step_cells)

lemma propagation_complete:
  "texture_complete ws wt (propagation ws wt d n F) = texture_complete ws wt F"
  by (simp add: texture_complete_def propagation_cells)

lemma nearest_complete:
  assumes "texture_complete ws wt F"
  shows "nearest ws wt F uv = texel F (wrap_index ws (cells_x F) \<lfloor>vx uv * real (cells_x F)\<rfloor>)
                                     (wrap_index wt (cells_y F) \<lfloor>vy uv * real (cells_y F)\<rfloor>)"
  using assms by (simp add: nearest_def)

lemma nearest_incomplete:
  assumes "\<not> texture_complete ws wt F"
  shows "nearest ws wt F uv = Vec4 0 0 0 1"
  using assms by (simp add: nearest_def)

lemma nearest_texel:
  assumes "x < cells_x F" and "y < cells_y F" and "texture_complete ws wt F"
  shows "nearest ws wt F (Vec2 ((real x + 1 / 2) / real (cells_x F)) ((real y + 1 / 2) / real (cells_y F)))
           = texel F x y"
    and "nearest ws wt F (Vec2 ((real x + 1 / 2) / real (cells_x F) - 1 / real (cells_x F))
                               ((real y + 1 / 2) / real (cells_y F)))
           = texel F (wrap_index ws (cells_x F) (int x - 1)) y"
    and "nearest ws wt F (Vec2 ((real x + 1 / 2) / real (cells_x F) + 1 / real (cells_x F))
                               ((real y + 1 / 2) / real (cells_y F)))
           = texel F (wrap_index ws (cells_x F) (int x + 1)) y"
    and "nearest ws wt F (Vec2 ((real x + 1 / 2) / real (cells_x F))
                               ((real y + 1 / 2) / real (cells_y F) - 1 / real (cells_y F)))
           = texel F x (wrap_index wt (cells_y F) (int y - 1))"
    and "nearest ws wt F (Vec2 ((real x + 1 / 2) / real (cells_x F))
                               ((real y + 1 / 2) / real (cells_y F) + 1 / real (cells_y F)))
           = texel F x (wrap_index wt (cells_y F) (int y + 1))"
proof -
  have nx: "0 < cells_x F" and ny: "0 < cells_y F"
    using assms by auto
  show "nearest ws wt F (Vec2 ((real x + 1 / 2) / real (cells_x F)) ((real y + 1 / 2) / real (cells_y F)))
           = texel F x y"
    unfolding nearest_complete[OF assms(3)] vec2.sel floor_centre[OF nx] floor_centre[OF ny]
    by (simp only: wrap_index_inside assms)
  show "nearest ws wt F (Vec2 ((real x + 1 / 2) / real (cells_x F) - 1 / real (cells_x F))
                               ((real y + 1 / 2) / real (cells_y F)))
           = texel F (wrap_index ws (cells_x F) (int x - 1)) y"
    unfolding nearest_complete[OF assms(3)] vec2.sel floor_centre[OF nx] floor_centre[OF ny]
    by (simp only: wrap_index_inside assms)
  show "nearest ws wt F (Vec2 ((real x + 1 / 2) / real (cells_x F) + 1 / real (cells_x F))
                               ((real y + 1 / 2) / real (cells_y F)))
           = texel F (wrap_index ws (cells_x F) (int x + 1)) y"
    unfolding nearest_complete[OF assms(3)] vec2.sel floor_centre[OF nx] floor_centre[OF ny]
    by (simp only: wrap_index_inside assms)
  show "nearest ws wt F (Vec2 ((real x + 1 / 2) / real (cells_x F))
                               ((real y + 1 / 2) / real (cells_y F) - 1 / real (cells_y F)))
           = texel F x (wrap_index wt (cells_y F) (int y - 1))"
    unfolding nearest_complete[OF assms(3)] vec2.sel floor_centre[OF nx] floor_centre[OF ny]
    by (simp only: wrap_index_inside assms)
  show "nearest ws wt F (Vec2 ((real x + 1 / 2) / real (cells_x F))
                               ((real y + 1 / 2) / real (cells_y F) + 1 / real (cells_y F)))
           = texel F x (wrap_index wt (cells_y F) (int y + 1))"
    unfolding nearest_complete[OF assms(3)] vec2.sel floor_centre[OF nx] floor_centre[OF ny]
    by (simp only: wrap_index_inside assms)
qed

lemma step_texel:
  assumes "x < cells_x F" and "y < cells_y F" and "texture_complete ws wt F"
  shows "texel (propagation_step ws wt d F) x y =
           Vec4 ((((red (texel F (wrap_index ws (cells_x F) (int x - 1)) y)
                    + red (texel F x (wrap_index wt (cells_y F) (int y - 1)))
                    + red (texel F (wrap_index ws (cells_x F) (int x + 1)) y)
                    + red (texel F x (wrap_index wt (cells_y F) (int y + 1))) - 2)
                   - ((green (texel F x y) + blue (texel F x y)) * 2 - 1)) * d) * (1 / 2) + 1 / 2)
                (red (texel F x y)) 0 0"
proof -
  have "texel (propagation_step ws wt d F) x y =
      propagate_fragment (nearest ws wt F) (Vec2 (real (cells_x F)) (real (cells_y F))) d
        (Vec2 (real x + 1 / 2) (real y + 1 / 2))"
    by (simp add: propagation_step_def)
  also have "\<dots> = Vec4 ((((red (texel F (wrap_index ws (cells_x F) (int x - 1)) y)
                    + red (texel F x (wrap_index wt (cells_y F) (int y - 1)))
                    + red (texel F (wrap_index ws (cells_x F) (int x + 1)) y)
                    + red (texel F x (wrap_index wt (cells_y F) (int y + 1))) - 2)
                   - ((green (texel F x y) + blue (texel F x y)) * 2 - 1)) * d) * (1 / 2) + 1 / 2)
                (red (texel F x y)) 0 0"
    unfolding propagate_fragment_def Let_def vec2_div_def texture2D_def rgb_def vec2.sel vec3.sel
    by (simp only: nearest_texel[OF assms])
  finally show ?thesis .
qed

lemma step_signed:
  assumes "x < cells_x F" and "y < cells_y F" and "texture_complete ws wt F"
  shows "signed_height (propagation_step ws wt d F) x y =
           d * (neighbour_sum ws wt (cells_x F) (cells_y F) (signed_height F) x y / 2
                - momentum_of F x y)"
    and "momentum_of (propagation_step ws wt d F) x y = signed_height F x y"
  by (simp_all add: signed_height_def momentum_of_def neighbour_sum_def step_texel[OF assms]
      field_simps)


lemma energy_signed:
  "energy F = 9 * (\<Sum>x<cells_x F. \<Sum>y<cells_y F. (signed_height F x y)\<^sup>2)"
proof -
  have "(spec_decode (red (texel F x y)))\<^sup>2 = 9 * (signed_height F x y)\<^sup>2" for x y
    by (simp add: spec_decode_def signed_height_def power2_eq_square algebra_simps)
  then show ?thesis
    by (simp add: energy_def sum_distrib_left)
qed

lemma grid_linear:
  fixes a b c :: "nat \<Rightarrow> nat \<Rightarrow> real"
  shows "(\<Sum>x<nx. \<Sum>y<ny. ka * a x y - kb * b x y + kc * c x y)
       = ka * (\<Sum>x<nx. \<Sum>y<ny. a x y) - kb * (\<Sum>x<nx. \<Sum>y<ny. b x y)
         + kc * (\<Sum>x<nx. \<Sum>y<ny. c x y)"
  by (simp add: sum.distrib sum_subtractf sum_distrib_left)

lemma wave_energy_split:
  "wave_energy ws wt d F =
     (\<Sum>x<cells_x F. \<Sum>y<cells_y F. (signed_height F x y)\<^sup>2)
     - d / 2 * (\<Sum>x<cells_x F. \<Sum>y<cells_y F.
                  signed_height F x y * neighbour_sum ws wt (cells_x F) (cells_y F) (momentum_of F) x y)
     + d * (\<Sum>x<cells_x F. \<Sum>y<cells_y F. (momentum_of F x y)\<^sup>2)"
  unfolding wave_energy_def
  using grid_linear[where ka = 1 and kb = "d / 2" and kc = d and nx = "cells_x F" and ny = "cells_y F"
      and a = "\<lambda>x y. (signed_height F x y)\<^sup>2"
      and b = "\<lambda>x y. signed_height F x y
                 * neighbour_sum ws wt (cells_x F) (cells_y F) (momentum_of F) x y"
      and c = "\<lambda>x y. (momentum_of F x y)\<^sup>2"]
  by simp

lemma wave_energy_step:
  assumes "0 < cells_x F" and "0 < cells_y F" and complete: "texture_complete ws wt F"
  shows "wave_energy ws wt d (propagation_step ws wt d F) = d * wave_energy ws wt d F"
proof -
  let ?nx = "cells_x F" and ?ny = "cells_y F"
  let ?u = "signed_height F" and ?p = "momentum_of F"
  let ?F' = "propagation_step ws wt d F"
  let ?S = "neighbour_sum ws wt ?nx ?ny"
  have inside: "wrap_index ws ?nx i < ?nx" "wrap_index wt ?ny j < ?ny" for i j
    using assms by (simp_all add: wrap_index_less)
  have carried: "?S (momentum_of ?F') x y = ?S ?u x y" if "x < ?nx" "y < ?ny" for x y
    using that by (simp add: neighbour_sum_def step_signed(2) inside complete)
  have cell: "(signed_height ?F' x y)\<^sup>2
        - d / 2 * (signed_height ?F' x y * ?S (momentum_of ?F') x y)
        + d * (momentum_of ?F' x y)\<^sup>2
      = d * (?u x y)\<^sup>2 - (d * d / 2) * (?p x y * ?S ?u x y) + (d * d) * (?p x y)\<^sup>2"
    if "x < ?nx" "y < ?ny" for x y
    unfolding carried[OF that] step_signed[OF that complete]
    by (simp add: power2_eq_square algebra_simps)
  have "wave_energy ws wt d ?F'
      = (\<Sum>x<?nx. \<Sum>y<?ny.
           d * (?u x y)\<^sup>2 - (d * d / 2) * (?p x y * ?S ?u x y) + (d * d) * (?p x y)\<^sup>2)"
    unfolding wave_energy_def step_cells
    by (intro sum.cong refl cell) simp_all
  also have "\<dots> = d * (\<Sum>x<?nx. \<Sum>y<?ny. (?u x y)\<^sup>2)
      - (d * d / 2) * (\<Sum>x<?nx. \<Sum>y<?ny. ?p x y * ?S ?u x y)
      + (d * d) * (\<Sum>x<?nx. \<Sum>y<?ny. (?p x y)\<^sup>2)"
    by (rule grid_linear)
  also have "(\<Sum>x<?nx. \<Sum>y<?ny. ?p x y * ?S ?u x y) = (\<Sum>x<?nx. \<Sum>y<?ny. ?u x y * ?S ?p x y)"
    by (rule grid_symmetric[OF assms(1,2)])
  finally show ?thesis
    by (simp add: wave_energy_split algebra_simps)
qed

lemma wave_energy_lower:
  assumes "0 < cells_x F" and "0 < cells_y F" and "0 \<le> d"
  shows "(1 - d) * (\<Sum>x<cells_x F. \<Sum>y<cells_y F. (signed_height F x y)\<^sup>2) \<le> wave_energy ws wt d F"
proof -
  let ?U = "\<Sum>x<cells_x F. \<Sum>y<cells_y F. (signed_height F x y)\<^sup>2"
  let ?P = "\<Sum>x<cells_x F. \<Sum>y<cells_y F. (momentum_of F x y)\<^sup>2"
  let ?C = "\<Sum>x<cells_x F. \<Sum>y<cells_y F.
      signed_height F x y * neighbour_sum ws wt (cells_x F) (cells_y F) (momentum_of F) x y"
  have "?C \<le> 2 * ?U + 2 * ?P"
    by (rule grid_bound[OF assms(1,2)])
  then have "d * (?C / 2) \<le> d * (?U + ?P)"
    using assms(3) by (intro mult_left_mono) simp_all
  then show ?thesis
    by (simp add: wave_energy_split algebra_simps)
qed

lemma wave_energy_at_rest:
  assumes "0 < cells_x F" and "0 < cells_y F"
    and "\<forall>x<cells_x F. \<forall>y<cells_y F. momentum_of F x y = 0"
  shows "wave_energy ws wt d F = (\<Sum>x<cells_x F. \<Sum>y<cells_y F. (signed_height F x y)\<^sup>2)"
proof -
  have inside: "wrap_index ws (cells_x F) i < cells_x F" "wrap_index wt (cells_y F) j < cells_y F" for i j
    using assms by (simp_all add: wrap_index_less)
  have "neighbour_sum ws wt (cells_x F) (cells_y F) (momentum_of F) x y = 0"
    if "x < cells_x F" "y < cells_y F" for x y
    using that assms(3) by (simp add: neighbour_sum_def inside)
  then show ?thesis
    using assms(3) by (simp add: wave_energy_def)
qed

lemma wave_energy_propagation:
  assumes "0 < cells_x F" and "0 < cells_y F" and "texture_complete ws wt F"
  shows "wave_energy ws wt d (propagation ws wt d n F) = d ^ n * wave_energy ws wt d F"
proof (induction n)
  case 0
  show ?case by (simp add: propagation_0)
next
  case (Suc n)
  have "wave_energy ws wt d (propagation ws wt d (Suc n) F)
      = d * wave_energy ws wt d (propagation ws wt d n F)"
    unfolding propagation_Suc
    by (rule wave_energy_step) (simp_all add: propagation_cells propagation_complete assms)
  with Suc show ?case by simp
qed

lemma energy_bound:
  assumes "0 < cells_x F" and "0 < cells_y F" and "0 < d" and "d < 1"
    and "\<forall>x<cells_x F. \<forall>y<cells_y F. momentum_of F x y = 0"
    and "texture_complete ws wt F"
  shows "energy (propagation ws wt d n F) \<le> d ^ n / (1 - d) * energy F"
proof -
  let ?Fn = "propagation ws wt d n F"
  let ?U = "\<lambda>G. \<Sum>x<cells_x G. \<Sum>y<cells_y G. (signed_height G x y)\<^sup>2"
  have "(1 - d) * ?U ?Fn \<le> wave_energy ws wt d ?Fn"
    by (intro wave_energy_lower) (simp_all add: propagation_cells assms less_imp_le)
  also have "\<dots> = d ^ n * ?U F"
    by (simp add: wave_energy_propagation assms wave_energy_at_rest)
  finally have "?U ?Fn \<le> d ^ n * ?U F / (1 - d)"
    using assms(4) by (simp add: pos_le_divide_eq mult.commute)
  then have "9 * ?U ?Fn \<le> 9 * (d ^ n * ?U F / (1 - d))"
    by simp
  also have "\<dots> = d ^ n / (1 - d) * (9 * ?U F)"
    by simp
  finally show ?thesis
    by (simp only: energy_signed)
qed


lemma impulse_field_simps:
  "cells_x (impulse_field nx ny cx cy r) = nx"
  "cells_y (impulse_field nx ny cx cy r) = ny"
  "signed_height (impulse_field nx ny cx cy r) x y = (if x = cx \<and> y = cy then r * 2 - 1 else 0)"
  "momentum_of (impulse_field nx ny cx cy r) x y = 0"
  by (simp_all add: impulse_field_def signed_height_def momentum_of_def)

lemma sum_5: "(\<Sum>i<5. f i) = f 0 + f 1 + f 2 + f 3 + f (4::nat)" for f :: "nat \<Rightarrow> real"
  by (simp add: eval_nat_numeral)

lemma wrap_5:
  assumes "x < 5"
  shows "wrap_index w 5 (int x - 1) = 1 \<longleftrightarrow> x = 2"
    and "wrap_index w 5 (int x - 1) = 2 \<longleftrightarrow> x = 3"
    and "wrap_index w 5 (int x - 1) = 3 \<longleftrightarrow> x = 4"
    and "wrap_index w 5 (int x + 1) = 1 \<longleftrightarrow> x = 0"
    and "wrap_index w 5 (int x + 1) = 2 \<longleftrightarrow> x = 1"
    and "wrap_index w 5 (int x + 1) = 3 \<longleftrightarrow> x = 2"
  using assms unfolding wrap_left[OF assms] wrap_right[OF assms]
  by (auto split: if_splits) presburger+

lemma impulse_step1:
  assumes "x < 5" and "y < 5" and "texture_complete ws wt (impulse_field 5 5 2 2 1)"
  shows "signed_height (propagation_step ws wt d (impulse_field 5 5 2 2 1)) x y
           = (if (x = 1 \<and> y = 2) \<or> (x = 3 \<and> y = 2) \<or> (x = 2 \<and> y = 1) \<or> (x = 2 \<and> y = 3)
              then d / 2 else 0)"
  using assms
  by (simp add: step_signed impulse_field_simps neighbour_sum_def wrap_5)


lemma impulse_step2_raw:
  assumes "x < 5" and "y < 5" and complete: "texture_complete ws wt (impulse_field 5 5 2 2 1)"
  shows "signed_height (propagation_step ws wt d (propagation_step ws wt d (impulse_field 5 5 2 2 1))) x y
           = d * (((if (x = 2 \<and> y = 2) \<or> (x = 4 \<and> y = 2) \<or> (x = 3 \<and> y = 1) \<or> (x = 3 \<and> y = 3)
                    then d / 2 else 0)
                 + (if (x = 0 \<and> y = 2) \<or> (x = 2 \<and> y = 2) \<or> (x = 1 \<and> y = 1) \<or> (x = 1 \<and> y = 3)
                    then d / 2 else 0)
                 + (if (x = 1 \<and> y = 3) \<or> (x = 3 \<and> y = 3) \<or> (x = 2 \<and> y = 2) \<or> (x = 2 \<and> y = 4)
                    then d / 2 else 0)
                 + (if (x = 1 \<and> y = 1) \<or> (x = 3 \<and> y = 1) \<or> (x = 2 \<and> y = 0) \<or> (x = 2 \<and> y = 2)
                    then d / 2 else 0)) / 2
                - (if x = 2 \<and> y = 2 then 1 else 0))"
proof -
  let ?F0 = "impulse_field 5 5 2 2 1"
  let ?F1 = "propagation_step ws wt d ?F0"
  have inside: "wrap_index ws 5 i < 5" "wrap_index wt 5 j < 5" for i j
    by (simp_all add: wrap_index_less)
  have "signed_height (propagation_step ws wt d ?F1) x y
      = d * (neighbour_sum ws wt 5 5 (signed_height ?F1) x y / 2 - signed_height ?F0 x y)"
    using assms by (simp add: step_signed step_cells step_complete impulse_field_simps)
  also have "neighbour_sum ws wt 5 5 (signed_height ?F1) x y
      = (if (x = 2 \<and> y = 2) \<or> (x = 4 \<and> y = 2) \<or> (x = 3 \<and> y = 1) \<or> (x = 3 \<and> y = 3)
                    then d / 2 else 0)
                 + (if (x = 0 \<and> y = 2) \<or> (x = 2 \<and> y = 2) \<or> (x = 1 \<and> y = 1) \<or> (x = 1 \<and> y = 3)
                    then d / 2 else 0)
                 + (if (x = 1 \<and> y = 3) \<or> (x = 3 \<and> y = 3) \<or> (x = 2 \<and> y = 2) \<or> (x = 2 \<and> y = 4)
                    then d / 2 else 0)
                 + (if (x = 1 \<and> y = 1) \<or> (x = 3 \<and> y = 1) \<or> (x = 2 \<and> y = 0) \<or> (x = 2 \<and> y = 2)
                    then d / 2 else 0)"
    unfolding neighbour_sum_def
    by (simp only: impulse_step1[OF inside(1) assms(2) complete]
        impulse_step1[OF assms(1) inside(2) complete] wrap_5[OF assms(1)] wrap_5[OF assms(2)])
  also have "signed_height ?F0 x y = (if x = 2 \<and> y = 2 then 1 else 0)"
    by (simp add: impulse_field_simps)
  finally show ?thesis .
qed


lemma impulse_energy0: "energy (impulse_field 5 5 2 2 1) = 9"
  by (simp add: energy_signed impulse_field_simps sum_5)

lemma impulse_energy1:
  assumes "texture_complete ws wt (impulse_field 5 5 2 2 1)"
  shows "energy (propagation_step ws wt d (impulse_field 5 5 2 2 1)) = 9 * d\<^sup>2"
proof -
  have "energy (propagation_step ws wt d (impulse_field 5 5 2 2 1))
      = 9 * (\<Sum>x<(5::nat). \<Sum>y<(5::nat).
          (if (x = 1 \<and> y = 2) \<or> (x = 3 \<and> y = 2) \<or> (x = 2 \<and> y = 1) \<or> (x = 2 \<and> y = 3)
           then d / 2 else 0)\<^sup>2)"
    unfolding energy_signed step_cells impulse_field_simps
    by (intro arg_cong[where f = "\<lambda>t. 9 * t"] sum.cong refl
          arg_cong[where f = "\<lambda>t. t\<^sup>2"] impulse_step1) (simp_all add: assms)
  also have "\<dots> = 9 * d\<^sup>2"
    by (simp add: sum_5 power2_eq_square)
  finally show ?thesis .
qed

lemma impulse_energy2:
  assumes "texture_complete ws wt (impulse_field 5 5 2 2 1)"
  shows "energy (propagation_step ws wt d (propagation_step ws wt d (impulse_field 5 5 2 2 1)))
     = 9 * (d\<^sup>2 * (1 - d)\<^sup>2 + 5 / 4 * d ^ 4)"
proof -
  have "energy (propagation_step ws wt d (propagation_step ws wt d (impulse_field 5 5 2 2 1)))
      = 9 * (\<Sum>x<(5::nat). \<Sum>y<(5::nat).
          (d * (((if (x = 2 \<and> y = 2) \<or> (x = 4 \<and> y = 2) \<or> (x = 3 \<and> y = 1) \<or> (x = 3 \<and> y = 3)
                    then d / 2 else 0)
                 + (if (x = 0 \<and> y = 2) \<or> (x = 2 \<and> y = 2) \<or> (x = 1 \<and> y = 1) \<or> (x = 1 \<and> y = 3)
                    then d / 2 else 0)
                 + (if (x = 1 \<and> y = 3) \<or> (x = 3 \<and> y = 3) \<or> (x = 2 \<and> y = 2) \<or> (x = 2 \<and> y = 4)
                    then d / 2 else 0)
                 + (if (x = 1 \<and> y = 1) \<or> (x = 3 \<and> y = 1) \<or> (x = 2 \<and> y = 0) \<or> (x = 2 \<and> y = 2)
                    then d / 2 else 0)) / 2
                - (if x = 2 \<and> y = 2 then 1 else 0)))\<^sup>2)"
    unfolding energy_signed step_cells impulse_field_simps
    by (intro arg_cong[where f = "\<lambda>t. 9 * t"] sum.cong refl
          arg_cong[where f = "\<lambda>t. t\<^sup>2"] impulse_step2_raw) (simp_all add: assms)
  also have "\<dots> = 9 * (d\<^sup>2 * (1 - d)\<^sup>2 + 5 / 4 * d ^ 4)"
    by (simp add: sum_5 power2_eq_square power4_eq_xxxx algebra_simps)
  finally show ?thesis .
qed

lemma energy_nonneg: "0 \<le> energy F"
  by (simp add: energy_def sum_nonneg)

text \<open>A texture that is not complete: every step writes the same texel into every cell.\<close>

lemma step_incomplete:
  assumes "\<not> texture_complete ws wt F"
  shows "texel (propagation_step ws wt d F) x y = Vec4 ((1 - d) / 2) 0 0 0"
  by (simp add: propagation_step_def propagate_fragment_def Let_def texture2D_def rgb_def
      nearest_incomplete[OF assms] diff_divide_distrib)

lemma energy_incomplete:
  assumes "\<not> texture_complete ws wt F"
  shows "energy (propagation ws wt d (Suc n) F) = 9 * d\<^sup>2 * real (cells_x F * cells_y F)"
proof -
  have "\<not> texture_complete ws wt (propagation ws wt d n F)"
    by (simp add: propagation_complete assms)
  then have cell: "texel (propagation ws wt d (Suc n) F) x y = Vec4 ((1 - d) / 2) 0 0 0" for x y
    unfolding propagation_Suc by (rule step_incomplete)
  have "spec_decode ((1 - d) / 2) = - 3 * d"
    by (simp add: spec_decode_def diff_divide_distrib)
  then have "(spec_decode ((1 - d) / 2))\<^sup>2 = 9 * d\<^sup>2"
    by (simp add: power2_eq_square)
  then show ?thesis
    by (simp add: energy_def cell propagation_cells)
qed

text \<open>A field of a single cell: every neighbour of the cell is the cell itself, and with
  the damping \<open>1 / 4\<close> three steps multiply the state by \<open>- 1 / 8\<close>.\<close>

lemma wrap_index_single: "wrap_index w (Suc 0) i = 0"
  using wrap_index_less[of "Suc 0" w i] by simp

lemma single_complete:
  assumes "cells_x F = Suc 0" and "cells_y F = Suc 0"
  shows "texture_complete ws wt F"
  using assms by (simp add: texture_complete_def)

lemma single_step:
  assumes "cells_x F = Suc 0" and "cells_y F = Suc 0"
  shows "signed_height (propagation_step ws wt d F) 0 0
           = d * (2 * signed_height F 0 0 - momentum_of F 0 0)"
    and "momentum_of (propagation_step ws wt d F) 0 0 = signed_height F 0 0"
proof -
  have x: "0 < cells_x F" and y: "0 < cells_y F"
    using assms by simp_all
  show "signed_height (propagation_step ws wt d F) 0 0
           = d * (2 * signed_height F 0 0 - momentum_of F 0 0)"
    unfolding step_signed(1)[OF x y single_complete[OF assms]]
    by (simp add: neighbour_sum_def assms wrap_index_single)
  show "momentum_of (propagation_step ws wt d F) 0 0 = signed_height F 0 0"
    by (rule step_signed(2)[OF x y single_complete[OF assms]])
qed

lemma single_cells:
  "cells_x (propagation ws wt d n (impulse_field (Suc 0) (Suc 0) 0 0 1)) = Suc 0"
  "cells_y (propagation ws wt d n (impulse_field (Suc 0) (Suc 0) 0 0 1)) = Suc 0"
  by (simp_all add: propagation_cells impulse_field_simps)

lemma single_period:
  "signed_height (propagation ws wt (1 / 4) (3 * k) (impulse_field (Suc 0) (Suc 0) 0 0 1)) 0 0
     = (- 1 / 8) ^ k
   \<and> momentum_of (propagation ws wt (1 / 4) (3 * k) (impulse_field (Suc 0) (Suc 0) 0 0 1)) 0 0 = 0"
proof (induction k)
  case 0
  show ?case
    by (simp add: propagation_0 impulse_field_simps)
next
  case (Suc k)
  have three: "3 * Suc k = Suc (Suc (Suc (3 * k)))"
    by simp
  show ?case
    unfolding three propagation_Suc
    using Suc by (simp add: single_step step_cells single_cells)
qed

lemma single_energy:
  assumes "cells_x F = Suc 0" and "cells_y F = Suc 0"
  shows "energy F = 9 * (signed_height F 0 0)\<^sup>2"
  by (simp add: energy_signed assms)

lemma single_rise:
  "energy (propagation ws wt (1 / 4) (3 * k + 2) (impulse_field (Suc 0) (Suc 0) 0 0 1)) = 0"
  "energy (propagation ws wt (1 / 4) (3 * k + 3) (impulse_field (Suc 0) (Suc 0) 0 0 1))
     = 9 / 64 ^ Suc k"
proof -
  let ?F = "impulse_field (Suc 0) (Suc 0) 0 0 1"
  have two: "3 * k + 2 = Suc (Suc (3 * k))" and three: "3 * k + 3 = 3 * Suc k"
    by simp_all
  show "energy (propagation ws wt (1 / 4) (3 * k + 2) ?F) = 0"
    unfolding two propagation_Suc
    using single_period[of ws wt k]
    by (simp add: single_energy single_step step_cells single_cells)
  have "((- 1 / 8) ^ Suc k)\<^sup>2 = (1 / 64 :: real) ^ Suc k"
    unfolding power2_eq_square power_mult_distrib[symmetric] by simp
  then show "energy (propagation ws wt (1 / 4) (3 * k + 3) ?F) = 9 / 64 ^ Suc k"
    unfolding single_energy[OF single_cells] three
    using single_period[of ws wt "Suc k"] by (simp add: power_one_over power_divide)
qed

lemma impulse_complete:
  "texture_complete CLAMP_TO_EDGE CLAMP_TO_EDGE (impulse_field 5 5 2 2 1)"
  "\<not> texture_complete REPEAT REPEAT (impulse_field 5 5 2 2 1)"
  by (simp_all add: texture_complete_def impulse_field_simps)

text \<open>
  Claim C3, as the code has it. Take a field of at least one cell whose momentum is zero
  everywhere (a single impulse on the neutral field is one), a damping \<open>d\<close> strictly between
  0 and 1 and any wrap modes, and iterate the propagation step in exact arithmetic.

  When the texture is complete (both wrap modes \<^verbatim>\<open>CLAMP_TO_EDGE\<close>, or both dimensions powers
  of two), the total field energy after \<open>n\<close> steps is at most \<open>d ^ n / (1 - d)\<close> times the
  initial energy; so it never exceeds the initial energy divided by \<open>1 - d\<close>, and from some
  step on it stays below any positive level. What decreases at every step, by exactly the
  factor \<open>d\<close>, is the quantity \<open>wave_energy\<close>, which starts at one ninth of the initial
  energy. The energy itself need not decrease from one step to the next.

  When the texture is not complete, every read of it returns \<open>(0, 0, 0, 1)\<close>, and from the
  first step on the energy is \<open>9 * d\<^sup>2\<close> times the number of cells, whatever the field held:
  it does not decay.

  In both cases the energy stays bounded, by the larger of the initial energy divided by
  \<open>1 - d\<close> and nine times the number of cells.
\<close>

theorem energy_bounded_and_decaying:
  assumes "0 < cells_x F" and "0 < cells_y F" and "0 < d" and "d < 1"
    and "\<forall>x<cells_x F. \<forall>y<cells_y F. momentum_of F x y = 0"
  shows "(texture_complete ws wt F \<longrightarrow>
            (\<forall>n. energy (propagation ws wt d n F) \<le> d ^ n / (1 - d) * energy F)
          \<and> (\<forall>n. energy (propagation ws wt d n F) \<le> energy F / (1 - d))
          \<and> (\<forall>n. wave_energy ws wt d (propagation ws wt d (Suc n) F)
                   = d * wave_energy ws wt d (propagation ws wt d n F))
          \<and> wave_energy ws wt d F = energy F / 9
          \<and> (\<forall>e>0. \<exists>N. \<forall>n\<ge>N. energy (propagation ws wt d n F) < e))
       \<and> (\<not> texture_complete ws wt F \<longrightarrow>
            (\<forall>n. energy (propagation ws wt d (Suc n) F)
                   = 9 * d\<^sup>2 * real (cells_x F * cells_y F)))
       \<and> (\<forall>n. energy (propagation ws wt d n F)
                \<le> max (energy F / (1 - d)) (9 * real (cells_x F * cells_y F)))"
proof -
  have initial: "energy F \<le> energy F / (1 - d)"
  proof -
    have "energy F * (1 - d) \<le> energy F * 1"
      using assms(3) by (intro mult_left_mono energy_nonneg) simp
    then show ?thesis
      using assms(4) by (simp add: pos_le_divide_eq)
  qed
  have incomplete: "energy (propagation ws wt d (Suc n) F) = 9 * d\<^sup>2 * real (cells_x F * cells_y F)"
    if "\<not> texture_complete ws wt F" for n
    by (rule energy_incomplete[OF that])
  have flat: "energy (propagation ws wt d n F)
      \<le> max (energy F / (1 - d)) (9 * real (cells_x F * cells_y F))"
    if "\<not> texture_complete ws wt F" for n
  proof (cases n)
    case 0
    with initial show ?thesis
      by (simp add: propagation_0 max_def)
  next
    case (Suc m)
    have "d\<^sup>2 \<le> 1"
      using assms(3,4) by (simp add: power_le_one)
    then have "d\<^sup>2 * (9 * real (cells_x F * cells_y F)) \<le> 1 * (9 * real (cells_x F * cells_y F))"
      by (intro mult_right_mono) simp_all
    then have "energy (propagation ws wt d n F) \<le> 9 * real (cells_x F * cells_y F)"
      unfolding Suc incomplete[OF that] by (simp add: mult.assoc mult.left_commute)
    then show ?thesis
      by simp
  qed
  have complete: "(\<forall>n. energy (propagation ws wt d n F) \<le> d ^ n / (1 - d) * energy F)
          \<and> (\<forall>n. energy (propagation ws wt d n F) \<le> energy F / (1 - d))
          \<and> (\<forall>n. wave_energy ws wt d (propagation ws wt d (Suc n) F)
                   = d * wave_energy ws wt d (propagation ws wt d n F))
          \<and> wave_energy ws wt d F = energy F / 9
          \<and> (\<forall>e>0. \<exists>N. \<forall>n\<ge>N. energy (propagation ws wt d n F) < e)"
    if c: "texture_complete ws wt F"
  proof -
    have geometric: "energy (propagation ws wt d n F) \<le> d ^ n / (1 - d) * energy F" for n
      by (rule energy_bound[OF assms c])
    have bounded: "energy (propagation ws wt d n F) \<le> energy F / (1 - d)" for n
    proof -
      have "d ^ n \<le> 1"
        using assms(3,4) by (simp add: power_le_one)
      then have "d ^ n / (1 - d) \<le> 1 / (1 - d)"
        using assms(4) by (simp add: divide_right_mono)
      then have "d ^ n / (1 - d) * energy F \<le> 1 / (1 - d) * energy F"
        by (intro mult_right_mono energy_nonneg)
      with geometric[of n] show ?thesis by simp
    qed
    have scaled: "wave_energy ws wt d (propagation ws wt d (Suc n) F)
        = d * wave_energy ws wt d (propagation ws wt d n F)" for n
      by (simp add: wave_energy_propagation[OF assms(1,2) c])
    have rest: "wave_energy ws wt d F = energy F / 9"
      by (simp add: wave_energy_at_rest[OF assms(1,2,5)] energy_signed)
    have eventually: "\<exists>N. \<forall>n\<ge>N. energy (propagation ws wt d n F) < e" if "0 < e" for e
    proof -
      have "0 < e * (1 - d) / (energy F + 1)"
        using that assms(4) energy_nonneg[of F] by simp
      then obtain N where N: "d ^ N < e * (1 - d) / (energy F + 1)"
        using real_arch_pow_inv[OF _ assms(4)] by blast
      have "energy (propagation ws wt d n F) < e" if "N \<le> n" for n
      proof -
        have "d ^ n \<le> d ^ N"
          using that assms(3,4) by (intro power_decreasing) simp_all
        with N have "d ^ n < e * (1 - d) / (energy F + 1)"
          by simp
        then have "d ^ n * (energy F + 1) < e * (1 - d)"
          using energy_nonneg[of F] by (simp add: pos_less_divide_eq)
        moreover have "d ^ n * energy F \<le> d ^ n * (energy F + 1)"
          using assms(3) by (intro mult_left_mono) simp_all
        ultimately have "d ^ n * energy F < e * (1 - d)"
          by simp
        then have "d ^ n / (1 - d) * energy F < e"
          using assms(4) by (simp add: pos_divide_less_eq)
        with geometric[of n] show ?thesis by simp
      qed
      then show ?thesis by blast
    qed
    show ?thesis
      using geometric bounded scaled rest eventually by blast
  qed
  have always: "energy (propagation ws wt d n F)
      \<le> max (energy F / (1 - d)) (9 * real (cells_x F * cells_y F))" for n
  proof (cases "texture_complete ws wt F")
    case True
    from complete[OF True] have "energy (propagation ws wt d n F) \<le> energy F / (1 - d)"
      by blast
    then show ?thesis
      by simp
  next
    case False
    then show ?thesis
      by (rule flat)
  qed
  show ?thesis
    using complete incomplete always by blast
qed

theorem energy_bounded_and_decaying_witness:
  "0 < cells_x (impulse_field 5 5 2 2 1) \<and> 0 < cells_y (impulse_field 5 5 2 2 1)
   \<and> 0 < DAMPING \<and> DAMPING < 1
   \<and> momentum_of (impulse_field 5 5 2 2 1) = (\<lambda>x y. 0)
   \<and> energy (impulse_field 5 5 2 2 1) = 9
   \<and> texture_complete CLAMP_TO_EDGE CLAMP_TO_EDGE (impulse_field 5 5 2 2 1)
   \<and> energy (propagation CLAMP_TO_EDGE CLAMP_TO_EDGE DAMPING 2 (impulse_field 5 5 2 2 1))
       \<le> DAMPING ^ 2 / (1 - DAMPING) * 9
   \<and> energy (propagation CLAMP_TO_EDGE CLAMP_TO_EDGE DAMPING 2 (impulse_field 5 5 2 2 1)) \<le> 1800
   \<and> (\<exists>N. \<forall>n\<ge>N.
         energy (propagation CLAMP_TO_EDGE CLAMP_TO_EDGE DAMPING n (impulse_field 5 5 2 2 1)) < 9)
   \<and> \<not> texture_complete REPEAT REPEAT (impulse_field 5 5 2 2 1)
   \<and> (\<forall>n. energy (propagation REPEAT REPEAT DAMPING (Suc n) (impulse_field 5 5 2 2 1))
            = 222.755625)
   \<and> (\<forall>n. energy (propagation REPEAT REPEAT DAMPING n (impulse_field 5 5 2 2 1)) \<le> 1800)"
proof -
  let ?F = "impulse_field 5 5 2 2 1"
  have nx: "0 < cells_x ?F" and ny: "0 < cells_y ?F"
    by (simp_all add: impulse_field_simps)
  have d0: "0 < DAMPING" and d1: "DAMPING < 1"
    by (simp_all add: DAMPING_def)
  have rest: "\<forall>x<cells_x ?F. \<forall>y<cells_y ?F. momentum_of ?F x y = 0"
    by (simp add: impulse_field_simps)
  have still: "momentum_of ?F = (\<lambda>x y. 0)"
    by (intro ext) (simp add: impulse_field_simps)
  note clamped = energy_bounded_and_decaying[OF nx ny d0 d1 rest,
      where ws = CLAMP_TO_EDGE and wt = CLAMP_TO_EDGE]
  note repeated = energy_bounded_and_decaying[OF nx ny d0 d1 rest,
      where ws = REPEAT and wt = REPEAT]
  from clamped impulse_complete(1)
  have a: "energy (propagation CLAMP_TO_EDGE CLAMP_TO_EDGE DAMPING 2 ?F)
       \<le> DAMPING ^ 2 / (1 - DAMPING) * energy ?F"
    by blast
  from clamped impulse_complete(1)
  have b: "energy (propagation CLAMP_TO_EDGE CLAMP_TO_EDGE DAMPING 2 ?F)
       \<le> energy ?F / (1 - DAMPING)"
    by blast
  from clamped impulse_complete(1)
  have c: "\<exists>N. \<forall>n\<ge>N. energy (propagation CLAMP_TO_EDGE CLAMP_TO_EDGE DAMPING n ?F) < 9"
    by simp
  from repeated impulse_complete(2)
  have r: "\<forall>n. energy (propagation REPEAT REPEAT DAMPING (Suc n) ?F)
      = 9 * DAMPING\<^sup>2 * real (cells_x ?F * cells_y ?F)"
    by blast
  from repeated
  have m: "\<forall>n. energy (propagation REPEAT REPEAT DAMPING n ?F)
      \<le> max (energy ?F / (1 - DAMPING)) (9 * real (cells_x ?F * cells_y ?F))"
    by blast
  have e: "energy ?F / (1 - DAMPING) = 1800"
    by (simp add: impulse_energy0 DAMPING_def)
  have v: "9 * DAMPING\<^sup>2 * real (cells_x ?F * cells_y ?F) = 222.755625"
    by (simp add: DAMPING_def impulse_field_simps power2_eq_square)
  have w: "max (1800 :: real) (9 * real (cells_x ?F * cells_y ?F)) = 1800"
    by (simp add: impulse_field_simps)
  from b have b': "energy (propagation CLAMP_TO_EDGE CLAMP_TO_EDGE DAMPING 2 ?F) \<le> 1800"
    by (simp only: e)
  from a have a': "energy (propagation CLAMP_TO_EDGE CLAMP_TO_EDGE DAMPING 2 ?F)
       \<le> DAMPING ^ 2 / (1 - DAMPING) * 9"
    by (simp only: impulse_energy0)
  have r': "\<forall>n. energy (propagation REPEAT REPEAT DAMPING (Suc n) ?F) = 222.755625"
    using r unfolding v by blast
  have m': "\<forall>n. energy (propagation REPEAT REPEAT DAMPING n ?F) \<le> 1800"
    using m unfolding e w by blast
  show ?thesis
    using nx ny d0 d1 still a' b' c r' m' impulse_energy0 impulse_complete by blast
qed

text \<open>
  Claim C3 as stated fails in its first part, in three ways, each for a unit impulse on
  the neutral field.

  On a field of 5 by 5 cells with the wrap mode \<^verbatim>\<open>REPEAT\<close> and the damping 0.995 of the code,
  the texture is not complete, and the energy, 9 at the start, is 222.755625 after every
  number of steps from one on: it never comes back below its initial value.

  On the same field with the wrap mode \<^verbatim>\<open>CLAMP_TO_EDGE\<close>, where the texture is complete, the
  energy falls in the first step and rises in the second, above its initial value.

  On a field of a single cell, which is complete under every wrap mode, with the damping
  \<open>1 / 4\<close>, the energy rises from step \<open>3 * k + 2\<close> to step \<open>3 * k + 3\<close> for every \<open>k\<close>: it is
  not monotone from any step on.
\<close>

theorem energy_not_monotone_counterexample:
  "energy (impulse_field 5 5 2 2 1) = 9
   \<and> (\<forall>n. energy (propagation REPEAT REPEAT DAMPING (Suc n) (impulse_field 5 5 2 2 1))
            = 222.755625)
   \<and> energy (propagation CLAMP_TO_EDGE CLAMP_TO_EDGE DAMPING 1 (impulse_field 5 5 2 2 1))
       < energy (propagation CLAMP_TO_EDGE CLAMP_TO_EDGE DAMPING 0 (impulse_field 5 5 2 2 1))
   \<and> energy (propagation CLAMP_TO_EDGE CLAMP_TO_EDGE DAMPING 1 (impulse_field 5 5 2 2 1))
       < energy (propagation CLAMP_TO_EDGE CLAMP_TO_EDGE DAMPING 2 (impulse_field 5 5 2 2 1))
   \<and> energy (propagation CLAMP_TO_EDGE CLAMP_TO_EDGE DAMPING 0 (impulse_field 5 5 2 2 1))
       < energy (propagation CLAMP_TO_EDGE CLAMP_TO_EDGE DAMPING 2 (impulse_field 5 5 2 2 1))
   \<and> (\<forall>k. energy (propagation REPEAT REPEAT (1 / 4) (3 * k + 2) (impulse_field 1 1 0 0 1))
            < energy (propagation REPEAT REPEAT (1 / 4) (3 * k + 3) (impulse_field 1 1 0 0 1)))"
proof -
  have steps: "propagation ws wt d 1 G = propagation_step ws wt d G"
    "propagation ws wt d 2 G = propagation_step ws wt d (propagation_step ws wt d G)"
    for ws wt d G
    by (simp_all add: propagation_def eval_nat_numeral)
  have flat: "energy (propagation REPEAT REPEAT DAMPING (Suc n) (impulse_field 5 5 2 2 1))
      = 222.755625" for n
    unfolding energy_incomplete[OF impulse_complete(2)]
    by (simp add: DAMPING_def impulse_field_simps power2_eq_square)
  have rise: "energy (propagation REPEAT REPEAT (1 / 4) (3 * k + 2) (impulse_field 1 1 0 0 1))
      < energy (propagation REPEAT REPEAT (1 / 4) (3 * k + 3) (impulse_field 1 1 0 0 1))" for k
    using single_rise[of REPEAT REPEAT k] by simp
  have clamped:
    "energy (propagation CLAMP_TO_EDGE CLAMP_TO_EDGE DAMPING 1 (impulse_field 5 5 2 2 1))
       < energy (propagation CLAMP_TO_EDGE CLAMP_TO_EDGE DAMPING 0 (impulse_field 5 5 2 2 1))"
    "energy (propagation CLAMP_TO_EDGE CLAMP_TO_EDGE DAMPING 1 (impulse_field 5 5 2 2 1))
       < energy (propagation CLAMP_TO_EDGE CLAMP_TO_EDGE DAMPING 2 (impulse_field 5 5 2 2 1))"
    "energy (propagation CLAMP_TO_EDGE CLAMP_TO_EDGE DAMPING 0 (impulse_field 5 5 2 2 1))
       < energy (propagation CLAMP_TO_EDGE CLAMP_TO_EDGE DAMPING 2 (impulse_field 5 5 2 2 1))"
    unfolding steps propagation_0 impulse_energy0 impulse_energy1[OF impulse_complete(1)]
      impulse_energy2[OF impulse_complete(1)]
    by (simp_all add: DAMPING_def power2_eq_square power4_eq_xxxx)
  show ?thesis
    using flat rise clamped impulse_energy0 by blast
qed

end
